theory Spec2Isabelle
  imports Main "HOL-Library.Word" "HOL-Library.Char_ord" "HOL-Library.List_Lexorder"
begin

section \<open>JSON values (jansson)\<close>

text \<open>
  The converter in \<^verbatim>\<open>imap/jmap_ical.c\<close> reads and builds jansson values. An object keeps
  its members in the order in which their keys were first set, and this is the order in
  which \<^verbatim>\<open>json_object_foreach\<close> and \<^verbatim>\<open>json_object_iter\<close> visit them; so an object is
  an association list with distinct keys. JSON integers are \<^verbatim>\<open>json_int_t\<close> values. Real
  numbers play no role in the code embedded here and are left out.
\<close>

datatype json =
    JNull
  | JTrue
  | JFalse
  | JInteger int
  | JString string
  | JArray "json list"
  | JObject "(string \<times> json) list"

text \<open>A \<^verbatim>\<open>json_t *\<close> that may be \<^verbatim>\<open>NULL\<close> is a \<^typ>\<open>json option\<close>.\<close>

fun json_object_get :: "json option \<Rightarrow> string \<Rightarrow> json option" where
  "json_object_get (Some (JObject kvs)) k = map_of kvs k"
| "json_object_get _ k = None"

fun json_object_size :: "json option \<Rightarrow> nat" where
  "json_object_size (Some (JObject kvs)) = length kvs"
| "json_object_size _ = 0"

fun json_array_size :: "json option \<Rightarrow> nat" where
  "json_array_size (Some (JArray xs)) = length xs"
| "json_array_size _ = 0"

fun json_string_value :: "json option \<Rightarrow> string option" where
  "json_string_value (Some (JString s)) = Some s"
| "json_string_value _ = None"

fun json_integer_value :: "json option \<Rightarrow> int" where
  "json_integer_value (Some (JInteger i)) = i"
| "json_integer_value _ = 0"

fun json_is_string :: "json option \<Rightarrow> bool" where
  "json_is_string (Some (JString s)) = True"
| "json_is_string _ = False"

text \<open>\<^verbatim>\<open>JNOTNULL(x)\<close>: neither \<^verbatim>\<open>NULL\<close> nor the JSON null.\<close>

fun JNOTNULL :: "json option \<Rightarrow> bool" where
  "JNOTNULL None = False"
| "JNOTNULL (Some JNull) = False"
| "JNOTNULL (Some _) = True"

text \<open>
  Setting a member replaces the value of a key that is present, in place, and appends a
  new key at the end.
\<close>

fun object_set :: "(string \<times> 'v) list \<Rightarrow> string \<Rightarrow> 'v \<Rightarrow> (string \<times> 'v) list" where
  "object_set [] k v = [(k, v)]"
| "object_set ((k', v') # kvs) k v =
     (if k' = k then (k, v) # kvs else (k', v') # object_set kvs k v)"

section \<open>The iCalendar tree (libical)\<close>

datatype icalcomponent_kind = VCALENDAR_COMPONENT | VEVENT_COMPONENT | VALARM_COMPONENT
  | VTIMEZONE_COMPONENT

datatype icalproperty_kind =
    ATTENDEE_PROPERTY | ORGANIZER_PROPERTY | RECURRENCEID_PROPERTY | UID_PROPERTY
  | CREATED_PROPERTY | DTSTAMP_PROPERTY | SEQUENCE_PROPERTY | PRIORITY_PROPERTY
  | RDATE_PROPERTY | EXDATE_PROPERTY | RRULE_PROPERTY | DTEND_PROPERTY | DURATION_PROPERTY
  | TRIGGER_PROPERTY | ACTION_PROPERTY | RELATEDTO_PROPERTY | ACKNOWLEDGED_PROPERTY
  | SUMMARY_PROPERTY | VERSION_PROPERTY | CALSCALE_PROPERTY | X_PROPERTY

datatype icalparameter_partstat =
    PARTSTAT_X | PARTSTAT_NEEDSACTION | PARTSTAT_ACCEPTED | PARTSTAT_DECLINED
  | PARTSTAT_TENTATIVE | PARTSTAT_DELEGATED | PARTSTAT_COMPLETED | PARTSTAT_INPROCESS
  | PARTSTAT_FAILED | PARTSTAT_NONE

datatype icalparameter_related = RELATED_X | RELATED_START | RELATED_END | RELATED_NONE

text \<open>
  The parameters the embedded code reads or writes. \<^verbatim>\<open>icalparameter_get_delegatedto\<close>
  returns a string that the source tests against \<^verbatim>\<open>NULL\<close>, so the value is optional.
\<close>

datatype icalparameter =
    PARTSTAT_PARAMETER icalparameter_partstat
  | DELEGATEDTO_PARAMETER "string option"
  | DELEGATEDFROM_PARAMETER string
  | RELATED_PARAMETER icalparameter_related
  | RELTYPE_PARAMETER string
  | TZID_PARAMETER string
  | CN_PARAMETER string
  | X_PARAMETER string string

record icaltimetype =
  year :: int
  month :: int
  day :: int
  hour :: int
  minute :: int
  second :: int
  is_date :: bool
  is_utc :: bool

record icaldurationtype =
  is_neg :: bool
  days :: nat
  weeks :: nat
  hours :: nat
  minutes :: nat
  seconds :: nat

datatype icalvalue =
    TEXT_VALUE string
  | INTEGER_VALUE int
  | DATE_VALUE icaltimetype
  | DATETIME_VALUE icaltimetype
  | TRIGGER_VALUE icaltimetype icaldurationtype

record icalproperty =
  isa :: icalproperty_kind
  prop_value :: icalvalue
  parameters :: "icalparameter list"

datatype icalcomponent =
  Icalcomponent (comp_isa: icalcomponent_kind)
                (properties: "icalproperty list")
                (components: "icalcomponent list")

definition get_properties :: "icalcomponent \<Rightarrow> icalproperty_kind \<Rightarrow> icalproperty list" where
  "get_properties cmp kind = filter (\<lambda>p. isa p = kind) (properties cmp)"

definition icalcomponent_get_first_property ::
  "icalcomponent \<Rightarrow> icalproperty_kind \<Rightarrow> icalproperty option" where
  "icalcomponent_get_first_property cmp kind = find (\<lambda>p. isa p = kind) (properties cmp)"

definition get_components :: "icalcomponent \<Rightarrow> icalcomponent_kind \<Rightarrow> icalcomponent list" where
  "get_components cmp kind = filter (\<lambda>c. comp_isa c = kind) (components cmp)"

text \<open>
  \<^verbatim>\<open>icalproperty_get_value_as_string\<close>. UID, ATTENDEE, ORGANIZER, ACTION and RELATED-TO
  carry text (a cal-address is text), which is returned as it is. The code embedded below
  never asks for the string form of the other values; it is left empty here.
\<close>

fun icalvalue_as_string :: "icalvalue \<Rightarrow> string" where
  "icalvalue_as_string (TEXT_VALUE s) = s"
| "icalvalue_as_string _ = []"

definition icalproperty_get_value_as_string :: "icalproperty \<Rightarrow> string" where
  "icalproperty_get_value_as_string prop = icalvalue_as_string (prop_value prop)"

text \<open>\<^verbatim>\<open>icalcomponent_get_uid\<close>: the value of the first UID property, or \<^verbatim>\<open>NULL\<close>.\<close>

definition icalcomponent_get_uid :: "icalcomponent \<Rightarrow> string option" where
  "icalcomponent_get_uid cmp =
     map_option icalproperty_get_value_as_string
       (icalcomponent_get_first_property cmp UID_PROPERTY)"

section \<open>C strings\<close>

text \<open>\<^verbatim>\<open>tolower\<close> in the C locale, and the comparisons built on it.\<close>

definition tolower :: "char \<Rightarrow> char" where
  "tolower c =
     (case map_of (zip ''ABCDEFGHIJKLMNOPQRSTUVWXYZ'' ''abcdefghijklmnopqrstuvwxyz'') c of
        None \<Rightarrow> c
      | Some l \<Rightarrow> l)"

definition lcase :: "string \<Rightarrow> string" where
  "lcase s = map tolower s"

text \<open>\<^verbatim>\<open>strcasecmp(a, b) == 0\<close> and \<^verbatim>\<open>strncasecmp(a, b, n) == 0\<close>.\<close>

definition strcaseeq :: "string \<Rightarrow> string \<Rightarrow> bool" where
  "strcaseeq a b = (lcase a = lcase b)"

definition strncaseeq :: "string \<Rightarrow> string \<Rightarrow> nat \<Rightarrow> bool" where
  "strncaseeq a b n = (lcase (take n a) = lcase (take n b))"

text \<open>
  \<^verbatim>\<open>strchr(s, c)\<close>, as the offset of the first occurrence of \<open>c\<close>, or \<^verbatim>\<open>NULL\<close>.
\<close>

definition strchr :: "string \<Rightarrow> char \<Rightarrow> nat option" where
  "strchr s c = (if c \<in> set s then Some (length (takeWhile (\<lambda>x. x \<noteq> c) s)) else None)"

text \<open>Printing with \<^verbatim>\<open>%zu\<close> and \<^verbatim>\<open>%d\<close>.\<close>

fun string_of_nat :: "nat \<Rightarrow> string" where
  "string_of_nat n =
     (if n < 10 then [''0123456789'' ! n]
      else string_of_nat (n div 10) @ [''0123456789'' ! (n mod 10)])"

declare string_of_nat.simps [simp del]

definition string_of_int :: "int \<Rightarrow> string" where
  "string_of_int i = (if i < 0 then CHR ''-'' # string_of_nat (nat (- i)) else string_of_nat (nat i))"

text \<open>
  A \<^verbatim>\<open>json_int_t\<close> stored into a C \<^verbatim>\<open>int\<close> (by \<^verbatim>\<open>json_unpack\<close> with format \<^verbatim>\<open>"i"\<close>,
  or as an \<^verbatim>\<open>int\<close> argument) keeps its low 32 bits, read as two's complement.
\<close>

definition int_of_json_int :: "int \<Rightarrow> int" where
  "int_of_json_int v = sint (word_of_int v :: 32 word)"

text \<open>
  \<^verbatim>\<open>xstrdup\<close> measures and copies its argument, so \<^verbatim>\<open>NULL\<close> is outside its contract
  (the source calls \<^verbatim>\<open>xstrdupnull\<close> where \<^verbatim>\<open>NULL\<close> is meant to pass). A call with
  \<^verbatim>\<open>NULL\<close> is the failure \<open>Null_dereference\<close>.
\<close>

datatype failure = Null_dereference

definition xstrdup :: "string option \<Rightarrow> failure + string" where
  "xstrdup s = (case s of None \<Rightarrow> Inl Null_dereference | Some str \<Rightarrow> Inr str)"

section \<open>The conversion context and the property-path tracker\<close>

datatype jmapical_error =
    JMAPICAL_SUCCESS | JMAPICAL_ERROR_CALLBACK | JMAPICAL_ERROR_MEMORY | JMAPICAL_ERROR_ICAL
  | JMAPICAL_ERROR_PROPS | JMAPICAL_ERROR_UID | JMAPICAL_ERROR_UNKNOWN

record jmapical_err_t =
  err_code :: jmapical_error
  err_props :: "json option"

text \<open>
  \<open>err\<close> is the error record that \<^verbatim>\<open>ctx->err\<close> points to: the caller's, or the one the
  context owns when the caller passed \<^verbatim>\<open>NULL\<close>. \<open>propstr\<close> is the stack of path
  segments, its top at the end of the list. \<open>invalid\<close> lists the keys of the JSON object
  \<^verbatim>\<open>ctx->invalid\<close> (every value is the JSON null) in the order in which they were first
  set.
\<close>

record context_t =
  err :: jmapical_err_t
  propstr :: "string list"
  invalid :: "string list"
  ctx_uid :: "string option"
  is_allday :: bool

definition context_new :: "jmapical_err_t option \<Rightarrow> context_t" where
  "context_new e =
     \<lparr>err = (case e of None \<Rightarrow> \<lparr>err_code = JMAPICAL_SUCCESS, err_props = None\<rparr> | Some r \<Rightarrow> r),
      propstr = [], invalid = [], ctx_uid = None, is_allday = False\<rparr>"

text \<open>
  Modelled from the spec: \<^verbatim>\<open>json_pointer_needsencode\<close> and \<^verbatim>\<open>json_pointer_encode\<close> are
  not in the file at hand. Segments that contain \<open>/\<close> or \<open>~\<close> are encoded per JSON
  Pointer: \<open>~\<close> becomes \<open>~0\<close> and \<open>/\<close> becomes \<open>~1\<close>.
\<close>

definition json_pointer_needsencode :: "string \<Rightarrow> bool" where
  "json_pointer_needsencode s = (CHR ''/'' \<in> set s \<or> CHR ''~'' \<in> set s)"

fun json_pointer_encode :: "string \<Rightarrow> string" where
  "json_pointer_encode [] = []"
| "json_pointer_encode (c # cs) =
     (if c = CHR ''~'' then ''~0'' @ json_pointer_encode cs
      else if c = CHR ''/'' then ''~1'' @ json_pointer_encode cs
      else c # json_pointer_encode cs)"

definition encode_segment :: "string \<Rightarrow> string" where
  "encode_segment name = (if json_pointer_needsencode name then json_pointer_encode name else name)"

definition beginprop_key :: "context_t \<Rightarrow> string \<Rightarrow> string \<Rightarrow> context_t" where
  "beginprop_key ctx name key =
     ctx\<lparr>propstr := propstr ctx @ [encode_segment name @ ''/'' @ encode_segment key]\<rparr>"

definition beginprop_idx :: "context_t \<Rightarrow> string \<Rightarrow> nat \<Rightarrow> context_t" where
  "beginprop_idx ctx name idx =
     ctx\<lparr>propstr := propstr ctx @ [encode_segment name @ ''/'' @ string_of_nat idx]\<rparr>"

definition beginprop :: "context_t \<Rightarrow> string \<Rightarrow> context_t" where
  "beginprop ctx name = ctx\<lparr>propstr := propstr ctx @ [encode_segment name]\<rparr>"

text \<open>
  \<^verbatim>\<open>endprop\<close> asserts that the stack is not empty and pops it. Every call embedded below
  follows a \<^verbatim>\<open>beginprop\<close> on the same path, so the assertion holds there.
\<close>

definition endprop :: "context_t \<Rightarrow> context_t" where
  "endprop ctx = ctx\<lparr>propstr := butlast (propstr ctx)\<rparr>"

fun join_path :: "string list \<Rightarrow> string" where
  "join_path [] = []"
| "join_path [s] = s"
| "join_path (s # ss) = s @ ''/'' @ join_path ss"

definition encodeprop :: "context_t \<Rightarrow> string option \<Rightarrow> string option" where
  "encodeprop ctx name =
     (if name = None \<and> propstr ctx = [] then None
      else Some (join_path (case name of None \<Rightarrow> propstr ctx
                                       | Some n \<Rightarrow> propstr (beginprop ctx n))))"

text \<open>
  \<^verbatim>\<open>json_object_set_new(ctx->invalid, key, json_null())\<close>: a key that is present stays
  where it is, a new key goes to the end, and a \<^verbatim>\<open>NULL\<close> key is refused.
\<close>

definition invalid_set :: "string list \<Rightarrow> string \<Rightarrow> string list" where
  "invalid_set keys k = (if k \<in> set keys then keys else keys @ [k])"

definition invalidprop :: "context_t \<Rightarrow> string option \<Rightarrow> context_t" where
  "invalidprop ctx name =
     (case encodeprop ctx name of
        None \<Rightarrow> ctx
      | Some k \<Rightarrow> ctx\<lparr>invalid := invalid_set (invalid ctx) k\<rparr>)"

text \<open>
  \<^verbatim>\<open>invalidprop_append\<close> prefixes each given path with the current path. It is called
  inside a \<^verbatim>\<open>beginprop_key\<close>, where the current path is not \<^verbatim>\<open>NULL\<close>.
\<close>

fun invalidprop_append :: "context_t \<Rightarrow> string list \<Rightarrow> context_t" where
  "invalidprop_append ctx [] = ctx"
| "invalidprop_append ctx (raw # props) =
     (case encodeprop ctx None of
        None \<Rightarrow> invalidprop_append ctx props
      | Some tmp \<Rightarrow>
          invalidprop_append (ctx\<lparr>invalid := invalid_set (invalid ctx) (tmp @ ''/'' @ raw)\<rparr>) props)"

definition have_invalid_props :: "context_t \<Rightarrow> bool" where
  "have_invalid_props ctx = (length (invalid ctx) > 0)"

definition get_invalid_props :: "context_t \<Rightarrow> json option" where
  "get_invalid_props ctx =
     (let props = map JString (invalid ctx)
      in if length props = 0 then None else Some (JArray props))"

text \<open>
  \<^verbatim>\<open>json_unpack\<close> with a one-letter format succeeds on a value of the matching type:
  \<open>s\<close> a string, \<open>i\<close> and \<open>I\<close> an integer, \<open>b\<close> a boolean, \<open>o\<close> any value.
\<close>

datatype unpack_format = Fmt_s | Fmt_i | Fmt_I | Fmt_b | Fmt_o

fun json_unpack_ok :: "json \<Rightarrow> unpack_format \<Rightarrow> bool" where
  "json_unpack_ok (JString s) Fmt_s = True"
| "json_unpack_ok (JInteger i) Fmt_i = True"
| "json_unpack_ok (JInteger i) Fmt_I = True"
| "json_unpack_ok JTrue Fmt_b = True"
| "json_unpack_ok JFalse Fmt_b = True"
| "json_unpack_ok j Fmt_o = True"
| "json_unpack_ok j f = False"

text \<open>
  \<^verbatim>\<open>readprop\<close> returns its code \<open>r\<close> and the context; when \<open>r\<close> is positive the value read
  is \<open>json_object_get from name\<close>.
\<close>

definition readprop ::
  "context_t \<Rightarrow> json option \<Rightarrow> string \<Rightarrow> bool \<Rightarrow> unpack_format \<Rightarrow> int \<times> context_t" where
  "readprop ctx from name is_mandatory fmt =
     (let r = (case json_object_get from name of
                 None \<Rightarrow> if is_mandatory then - 1 else 0
               | Some jval \<Rightarrow> if json_unpack_ok jval fmt then 1 else - 2)
      in (r, if r < 0 then invalidprop ctx (Some name) else ctx))"

section \<open>Pointer arrays (\<^verbatim>\<open>ptrarray_t\<close>)\<close>

text \<open>
  \<^verbatim>\<open>ptrarray_append\<close> and \<^verbatim>\<open>ptrarray_push\<close> add an element at the end of the array;
  \<^verbatim>\<open>ptrarray_pop\<close> removes the last element and returns it, or returns \<^verbatim>\<open>NULL\<close> when the
  array is empty (\<^verbatim>\<open>ptrarray_shift\<close> is the one that removes the first).
\<close>

definition ptrarray_append :: "'a list \<Rightarrow> 'a \<Rightarrow> 'a list" where
  "ptrarray_append pa x = pa @ [x]"

definition ptrarray_pop :: "'a list \<Rightarrow> ('a \<times> 'a list) option" where
  "ptrarray_pop pa = (if pa = [] then None else Some (last pa, butlast pa))"

section \<open>ICAL to JSON: the top-level entry points\<close>

text \<open>
  \<^verbatim>\<open>jmapical_tojmap_all\<close>, first loop: the VEVENTs without RECURRENCE-ID and with a UID are
  appended to \<^verbatim>\<open>todo\<close> in component order.
\<close>

fun locate_main_vevents :: "icalcomponent list \<Rightarrow> icalcomponent list \<Rightarrow> icalcomponent list" where
  "locate_main_vevents [] todo = todo"
| "locate_main_vevents (cmp # rest) todo =
     (if icalcomponent_get_first_property cmp RECURRENCEID_PROPERTY \<noteq> None
        then locate_main_vevents rest todo
      else if icalcomponent_get_uid cmp = None
        then locate_main_vevents rest todo
      else locate_main_vevents rest (ptrarray_append todo cmp))"

text \<open>
  Second loop: \<^verbatim>\<open>while ((cmp = ptrarray_pop(&todo)))\<close> converts each VEVENT and appends
  the event to the result when the conversion returned one. The conversion
  \<^verbatim>\<open>calendarevent_from_ical\<close> of a single VEVENT, run in a fresh context, is the parameter
  \<open>conv\<close>. The array shrinks with every pop, which is the termination argument.
\<close>

function convert_vevents ::
  "(icalcomponent \<Rightarrow> json option) \<Rightarrow> icalcomponent list \<Rightarrow> json list \<Rightarrow> json list" where
  "convert_vevents conv todo events =
     (case ptrarray_pop todo of
        None \<Rightarrow> events
      | Some (cmp, todo') \<Rightarrow>
          (case conv cmp of
             None \<Rightarrow> convert_vevents conv todo' events
           | Some obj \<Rightarrow> convert_vevents conv todo' (events @ [obj])))"
  by pat_completeness auto
termination
  by (relation "measure (\<lambda>(conv, todo, events). length todo)")
     (auto simp: ptrarray_pop_def split: if_splits)

declare convert_vevents.simps [simp del]

definition jmapical_tojmap_all :: "(icalcomponent \<Rightarrow> json option) \<Rightarrow> icalcomponent \<Rightarrow> json list" where
  "jmapical_tojmap_all conv ical =
     (let vevents = get_components ical VEVENT_COMPONENT;
          todo = locate_main_vevents vevents []
      in case vevents of
           [] \<Rightarrow> []
         | firstcomp # _ \<Rightarrow>
             convert_vevents conv (if todo = [] then ptrarray_append todo firstcomp else todo) [])"

definition jmapical_tojmap :: "(icalcomponent \<Rightarrow> json option) \<Rightarrow> icalcomponent \<Rightarrow> json option" where
  "jmapical_tojmap conv ical =
     (case jmapical_tojmap_all conv ical of [] \<Rightarrow> None | e # _ \<Rightarrow> Some e)"

text \<open>
  The first lines of \<^verbatim>\<open>calendarevent_from_ical\<close> for a master VEVENT: the type tag and the
  uid. It serves as a sample conversion that tells two VEVENTs apart.
\<close>

definition calendarevent_from_ical_uid :: "icalcomponent \<Rightarrow> json option" where
  "calendarevent_from_ical_uid cmp =
     Some (JObject
       (case icalcomponent_get_uid cmp of
          None \<Rightarrow> [(''@type'', JString ''jsevent'')]
        | Some uid \<Rightarrow> object_set [(''@type'', JString ''jsevent'')] ''uid'' (JString uid)))"

definition uid_vevent :: "string \<Rightarrow> icalcomponent" where
  "uid_vevent uid =
     Icalcomponent VEVENT_COMPONENT
       [\<lparr>isa = UID_PROPERTY, prop_value = TEXT_VALUE uid, parameters = []\<rparr>] []"

definition two_masters :: icalcomponent where
  "two_masters = Icalcomponent VCALENDAR_COMPONENT [] [uid_vevent ''first'', uid_vevent ''second'']"

section \<open>Participants, ICAL to JSON\<close>

text \<open>
  Hash tables (\<^verbatim>\<open>lib/hash.c\<close>) map strings to values: \<^verbatim>\<open>hash_insert\<close> replaces the value
  of a key that is present, \<^verbatim>\<open>hash_lookup\<close> returns \<^verbatim>\<open>NULL\<close> for a missing key.
\<close>

type_synonym 'v hash_table = "(string \<times> 'v) list"

definition hash_insert :: "string \<Rightarrow> 'v \<Rightarrow> 'v hash_table \<Rightarrow> 'v hash_table" where
  "hash_insert key data table = object_set table key data"

definition hash_lookup :: "string \<Rightarrow> 'v hash_table \<Rightarrow> 'v option" where
  "hash_lookup key table = map_of table key"

definition hash_numrecords :: "'v hash_table \<Rightarrow> nat" where
  "hash_numrecords table = length table"

text \<open>
  Modelled from the spec: the names of the x-parameters are defined in \<^verbatim>\<open>jmap_ical.h\<close>,
  which is not at hand; the spec lists them as \<open>X-JMAP-ID\<close> and \<open>X-JMAP-RSVP-URI\<close>.
\<close>

definition JMAPICAL_XPARAM_ID :: string where
  "JMAPICAL_XPARAM_ID = ''X-JMAP-ID''"

definition JMAPICAL_XPARAM_RSVP_URI :: string where
  "JMAPICAL_XPARAM_RSVP_URI = ''X-JMAP-RSVP-URI''"

fun xparam_value :: "icalparameter list \<Rightarrow> string \<Rightarrow> string option" where
  "xparam_value [] name = None"
| "xparam_value (X_PARAMETER xname xvalue # ps) name =
     (if strcaseeq xname name then Some xvalue else xparam_value ps name)"
| "xparam_value (_ # ps) name = xparam_value ps name"

definition get_icalxparam_value :: "icalproperty \<Rightarrow> string \<Rightarrow> string option" where
  "get_icalxparam_value prop name = xparam_value (parameters prop) name"

definition normalized_uri :: "string \<Rightarrow> string" where
  "normalized_uri uri =
     (case strchr uri (CHR '':'') of
        None \<Rightarrow> uri
      | Some col \<Rightarrow> lcase (take col uri) @ drop col uri)"

definition match_uri :: "string \<Rightarrow> string \<Rightarrow> bool" where
  "match_uri uri1 uri2 =
     (case (strchr uri1 (CHR '':''), strchr uri2 (CHR '':'')) of
        (None, None) \<Rightarrow> uri1 = uri2
      | (Some col1, Some col2) \<Rightarrow>
          if col1 = col2
          then strncaseeq uri1 uri2 col1 \<and> drop col1 uri1 = drop col1 uri2
          else False
      | _ \<Rightarrow> False)"

text \<open>
  \<^verbatim>\<open>rsvpto_from_ical\<close>: the RSVP-URI x-parameters of the form \<open>method:uri\<close>, then the
  property value itself unless one of the URIs read so far matches it.
\<close>

fun rsvp_uris :: "icalparameter list \<Rightarrow> (string \<times> json) list \<Rightarrow> (string \<times> json) list" where
  "rsvp_uris [] rsvpTo = rsvpTo"
| "rsvp_uris (X_PARAMETER xname val # ps) rsvpTo =
     (if \<not> strcaseeq xname JMAPICAL_XPARAM_RSVP_URI then rsvp_uris ps rsvpTo
      else
        (case strchr val (CHR '':'') of
           None \<Rightarrow> rsvp_uris ps (object_set rsvpTo ''web'' (JString val))
         | Some col1 \<Rightarrow>
             (case strchr (drop (col1 + 1) val) (CHR '':'') of
                None \<Rightarrow> rsvp_uris ps (object_set rsvpTo ''web'' (JString val))
              | Some col2 \<Rightarrow>
                  rsvp_uris ps (object_set rsvpTo (take col1 val) (JString (drop (col1 + 1) val))))))"
| "rsvp_uris (_ # ps) rsvpTo = rsvp_uris ps rsvpTo"

definition rsvpto_from_ical :: "icalproperty \<Rightarrow> json" where
  "rsvpto_from_ical prop =
     (let rsvpTo = rsvp_uris (parameters prop) [];
          caladdress = icalproperty_get_value_as_string prop;
          caladdress_is_defined =
            list_ex (\<lambda>(key, jval). case json_string_value (Some jval) of
                                      None \<Rightarrow> False
                                    | Some s \<Rightarrow> match_uri caladdress s) rsvpTo;
          rsvpTo' =
            (if \<not> caladdress_is_defined
             then (if strncaseeq caladdress ''mailto:'' 7
                   then object_set rsvpTo ''imip'' (JString caladdress)
                   else object_set rsvpTo ''other'' (JString caladdress))
             else rsvpTo)
      in if length rsvpTo' = 0 then JNull else JObject rsvpTo')"

text \<open>
  The participationStatus block of \<^verbatim>\<open>participant_from_ical\<close>. The loop runs while
  \<^verbatim>\<open>partstat\<close> is \<^verbatim>\<open>NULL\<close>; \<open>prop\<close> is the ATTENDEE being converted and \<open>partstat_prop\<close>
  the one whose PARTSTAT is read. The value \<open>None\<close> of the function is a loop that does
  not return; \<open>Some partstat\<close> is the value of \<^verbatim>\<open>partstat\<close> at the exit.
\<close>

fun first_partstat :: "icalparameter list \<Rightarrow> icalparameter_partstat option" where
  "first_partstat [] = None"
| "first_partstat (PARTSTAT_PARAMETER pst # ps) = Some pst"
| "first_partstat (_ # ps) = first_partstat ps"

fun first_delegatedto :: "icalparameter list \<Rightarrow> string option option" where
  "first_delegatedto [] = None"
| "first_delegatedto (DELEGATEDTO_PARAMETER to # ps) = Some to"
| "first_delegatedto (_ # ps) = first_delegatedto ps"

partial_function (option) partstat_loop ::
  "icalproperty hash_table \<Rightarrow> icalproperty \<Rightarrow> icalproperty \<Rightarrow> nat \<Rightarrow> string option option"
where
  "partstat_loop attendee_by_uri prop partstat_prop depth =
     (case first_partstat (parameters partstat_prop) of
        None \<Rightarrow> Some None
      | Some pst \<Rightarrow>
          (case pst of
             PARTSTAT_ACCEPTED \<Rightarrow> Some (Some ''accepted'')
           | PARTSTAT_DECLINED \<Rightarrow> Some (Some ''declined'')
           | PARTSTAT_TENTATIVE \<Rightarrow> Some (Some ''tentative'')
           | PARTSTAT_NEEDSACTION \<Rightarrow> Some (Some ''needs-action'')
           | PARTSTAT_DELEGATED \<Rightarrow>
               (case first_delegatedto (parameters prop) of
                  None \<Rightarrow> Some (Some ''none'')
                | Some None \<Rightarrow> partstat_loop attendee_by_uri prop partstat_prop depth
                | Some (Some to) \<Rightarrow>
                    (case hash_lookup (normalized_uri to) attendee_by_uri of
                       None \<Rightarrow> Some (Some ''none'')
                     | Some delegate \<Rightarrow>
                         if depth + 1 > 64 then Some (Some ''none'')
                         else partstat_loop attendee_by_uri prop delegate (depth + 1)))
           | _ \<Rightarrow> Some (Some ''none'')))"

text \<open>
  The member \<open>participationStatus\<close> that the block sets in the participant: absent when
  \<^verbatim>\<open>partstat\<close> is \<^verbatim>\<open>NULL\<close> or \<open>none\<close>.
\<close>

definition participationStatus_from_ical ::
  "icalproperty hash_table \<Rightarrow> icalproperty \<Rightarrow> string option option" where
  "participationStatus_from_ical attendee_by_uri prop =
     (case partstat_loop attendee_by_uri prop prop 0 of
        None \<Rightarrow> None
      | Some partstat \<Rightarrow>
          Some (if partstat \<noteq> None \<and> partstat \<noteq> Some ''none'' then partstat else None))"

text \<open>
  \<^verbatim>\<open>participants_from_ical\<close>. The SHA-1 key of a string (\<^verbatim>\<open>sha1key\<close>), the address
  canonicaliser, which may return \<^verbatim>\<open>NULL\<close>, and the conversion of one ATTENDEE
  (\<^verbatim>\<open>participant_from_ical\<close>, which returns an object) are parameters.
\<close>

record participant_ops =
  sha1key :: "string \<Rightarrow> string"
  address_canonicalise :: "string \<Rightarrow> string option"
  participant_from_ical ::
    "icalproperty \<Rightarrow> icalproperty hash_table \<Rightarrow> string hash_table \<Rightarrow> icalproperty option \<Rightarrow> json"

definition mailaddr_from_uri :: "participant_ops \<Rightarrow> string option \<Rightarrow> string option" where
  "mailaddr_from_uri P uri =
     (case uri of
        None \<Rightarrow> None
      | Some u \<Rightarrow> if \<not> strncaseeq u ''mailto:'' 7 then None
                  else address_canonicalise P (drop 7 u))"

fun first_cn :: "icalparameter list \<Rightarrow> string option" where
  "first_cn [] = None"
| "first_cn (CN_PARAMETER name # ps) = Some name"
| "first_cn (_ # ps) = first_cn ps"

text \<open>A member whose value is \<^verbatim>\<open>NULL\<close> is not set.\<close>

definition participant_from_icalorganizer :: "participant_ops \<Rightarrow> icalproperty \<Rightarrow> json" where
  "participant_from_icalorganizer P orga =
     (let name = (case first_cn (parameters orga) of None \<Rightarrow> [] | Some n \<Rightarrow> n);
          jorga = object_set [] ''name'' (JString name);
          jorga = object_set jorga ''roles'' (JObject [(''owner'', JTrue)]);
          caladdress = icalproperty_get_value_as_string orga
      in if strncaseeq caladdress ''mailto:'' 7
         then (let jorga = object_set jorga ''sendTo'' (JObject [(''imip'', JString caladdress)])
               in case mailaddr_from_uri P (Some caladdress) of
                    None \<Rightarrow> JObject jorga
                  | Some email \<Rightarrow> JObject (object_set jorga ''email'' (JString email)))
         else JObject (object_set
                         (object_set jorga ''sendTo'' (JObject [(''other'', JString caladdress)]))
                         ''email'' JNull))"

fun collect_attendees ::
  "participant_ops \<Rightarrow> icalproperty list \<Rightarrow> icalproperty hash_table \<times> string hash_table
     \<Rightarrow> icalproperty hash_table \<times> string hash_table" where
  "collect_attendees P [] tables = tables"
| "collect_attendees P (prop # props) (attendee_by_uri, id_by_uri) =
     (let uri = normalized_uri (icalproperty_get_value_as_string prop);
          pid = (case get_icalxparam_value prop JMAPICAL_XPARAM_ID of
                  None \<Rightarrow> sha1key P uri
                | Some xid \<Rightarrow> xid)
      in collect_attendees P props
           (hash_insert uri prop attendee_by_uri, hash_insert uri pid id_by_uri))"

text \<open>\<^verbatim>\<open>json_object_set_new\<close> refuses a \<^verbatim>\<open>NULL\<close> key.\<close>

fun map_attendees ::
  "participant_ops \<Rightarrow> icalproperty hash_table \<Rightarrow> string hash_table \<Rightarrow> icalproperty option
     \<Rightarrow> icalproperty list \<Rightarrow> (string \<times> json) list \<Rightarrow> (string \<times> json) list" where
  "map_attendees P attendee_by_uri id_by_uri orga [] participants = participants"
| "map_attendees P attendee_by_uri id_by_uri orga (prop # props) participants =
     (let uri = normalized_uri (icalproperty_get_value_as_string prop);
          p = participant_from_ical P prop attendee_by_uri id_by_uri orga
      in map_attendees P attendee_by_uri id_by_uri orga props
           (case hash_lookup uri id_by_uri of
              None \<Rightarrow> participants
            | Some pid \<Rightarrow> object_set participants pid p))"

definition participants_from_ical :: "participant_ops \<Rightarrow> icalcomponent \<Rightarrow> json" where
  "participants_from_ical P cmp =
     (let attendees = get_properties cmp ATTENDEE_PROPERTY;
          (attendee_by_uri, id_by_uri) = collect_attendees P attendees ([], []);
          participants =
            (if hash_numrecords attendee_by_uri = 0 then []
             else
               (let orga = icalcomponent_get_first_property cmp ORGANIZER_PROPERTY;
                    participants = map_attendees P attendee_by_uri id_by_uri orga attendees []
                in case orga of
                     None \<Rightarrow> participants
                   | Some oprop \<Rightarrow>
                       (let uri = normalized_uri (icalproperty_get_value_as_string oprop)
                        in if hash_lookup uri attendee_by_uri = None
                           then object_set participants
                                  (case get_icalxparam_value oprop JMAPICAL_XPARAM_ID of
                                     None \<Rightarrow> sha1key P uri
                                   | Some xid \<Rightarrow> xid)
                                  (participant_from_icalorganizer P oprop)
                           else participants)))
      in if length participants = 0 then JNull else JObject participants)"

text \<open>
  The replyTo and participants blocks of \<^verbatim>\<open>calendarevent_from_ical\<close>, on the members
  of the event built so far. \<open>wantprop\<close> is the caller's property filter and \<open>is_exc\<close>
  tells an exception from a master. Without a filter every property is wanted.
\<close>

definition wantprop_all :: "string \<Rightarrow> bool" where
  "wantprop_all name = True"

definition replyTo_participants_from_ical ::
  "participant_ops \<Rightarrow> (string \<Rightarrow> bool) \<Rightarrow> bool \<Rightarrow> icalcomponent
     \<Rightarrow> (string \<times> json) list \<Rightarrow> (string \<times> json) list" where
  "replyTo_participants_from_ical P wantprop is_exc cmp event =
     (let event1 =
            (if wantprop ''replyTo'' \<and> \<not> is_exc
             then (case icalcomponent_get_first_property cmp ORGANIZER_PROPERTY of
                     None \<Rightarrow> event
                   | Some prop \<Rightarrow> object_set event ''replyTo'' (rsvpto_from_ical prop))
             else event)
      in if wantprop ''participants''
         then object_set event1 ''participants'' (participants_from_ical P cmp)
         else event1)"

text \<open>
  The delegation chain of the spec's scenario 3: A is delegated to B, B is delegated to C,
  and C has accepted.
\<close>

definition attendee :: "string \<Rightarrow> icalparameter list \<Rightarrow> icalproperty" where
  "attendee uri ps = \<lparr>isa = ATTENDEE_PROPERTY, prop_value = TEXT_VALUE uri, parameters = ps\<rparr>"

definition att_A :: icalproperty where
  "att_A = attendee ''mailto:a@example.com''
     [X_PARAMETER ''X-JMAP-ID'' ''a'', PARTSTAT_PARAMETER PARTSTAT_DELEGATED,
      DELEGATEDTO_PARAMETER (Some ''mailto:b@example.com'')]"

definition att_B :: icalproperty where
  "att_B = attendee ''mailto:b@example.com''
     [X_PARAMETER ''X-JMAP-ID'' ''b'', PARTSTAT_PARAMETER PARTSTAT_DELEGATED,
      DELEGATEDTO_PARAMETER (Some ''mailto:c@example.com''),
      DELEGATEDFROM_PARAMETER ''mailto:a@example.com'']"

definition att_C :: icalproperty where
  "att_C = attendee ''mailto:c@example.com''
     [X_PARAMETER ''X-JMAP-ID'' ''c'', PARTSTAT_PARAMETER PARTSTAT_ACCEPTED,
      DELEGATEDFROM_PARAMETER ''mailto:b@example.com'']"

text \<open>
  A sample of the parameters: a key function that returns its argument, a canonicaliser
  that does the same, and an ATTENDEE conversion that returns the empty object.
\<close>

definition sample_participant_ops :: participant_ops where
  "sample_participant_ops =
     \<lparr>sha1key = (\<lambda>s. s), address_canonicalise = Some,
      participant_from_ical = (\<lambda>prop attendee_by_uri id_by_uri orga. JObject [])\<rparr>"

definition chain_attendee_by_uri :: "participant_ops \<Rightarrow> icalproperty hash_table" where
  "chain_attendee_by_uri P = fst (collect_attendees P [att_A, att_B, att_C] ([], []))"

section \<open>Participants, JSON to ICAL\<close>

definition remove_icalprop :: "icalcomponent \<Rightarrow> icalproperty_kind \<Rightarrow> icalcomponent" where
  "remove_icalprop cmp kind =
     Icalcomponent (comp_isa cmp) (filter (\<lambda>p. isa p \<noteq> kind) (properties cmp)) (components cmp)"

definition icalcomponent_add_property :: "icalcomponent \<Rightarrow> icalproperty \<Rightarrow> icalcomponent" where
  "icalcomponent_add_property cmp prop =
     Icalcomponent (comp_isa cmp) (properties cmp @ [prop]) (components cmp)"

text \<open>The members that \<^verbatim>\<open>json_object_foreach\<close> visits: none unless the value is an object.\<close>

fun json_object_members :: "json option \<Rightarrow> (string \<times> json) list" where
  "json_object_members (Some (JObject kvs)) = kvs"
| "json_object_members _ = []"

text \<open>
  \<^verbatim>\<open>is_valid_jmapid\<close>: the loop checks at most 256 characters and the result requires
  the string to end there, so the string has 1 to 256 characters, all from the id
  alphabet. \<^verbatim>\<open>is_valid_rsvpmethod\<close>: a non-empty string of ASCII letters.
\<close>

definition is_valid_jmapid :: "string \<Rightarrow> bool" where
  "is_valid_jmapid s =
     (list_all (\<lambda>c. c \<in> set ''0123456789''
                   \<or> c \<in> set ''abcdefghijklmnopqrstuvwxyz''
                   \<or> c \<in> set ''ABCDEFGHIJKLMNOPQRSTUVWXYZ''
                   \<or> c = CHR ''-'' \<or> c = CHR ''_'') s
      \<and> length s > 0 \<and> length s \<le> 256)"

definition is_valid_rsvpmethod :: "string \<Rightarrow> bool" where
  "is_valid_rsvpmethod s =
     (list_all (\<lambda>c. c \<in> set ''abcdefghijklmnopqrstuvwxyz''
                   \<or> c \<in> set ''ABCDEFGHIJKLMNOPQRSTUVWXYZ'') s
      \<and> length s > 0)"

text \<open>
  \<^verbatim>\<open>mailaddr_to_uri\<close> appends its argument to \<open>mailto:\<close> with \<^verbatim>\<open>buf_appendcstr\<close>, which
  measures the string: \<^verbatim>\<open>NULL\<close> is outside its contract as well.
\<close>

definition mailaddr_to_uri :: "string option \<Rightarrow> failure + string" where
  "mailaddr_to_uri addr =
     (case addr of None \<Rightarrow> Inl Null_dereference | Some a \<Rightarrow> Inr (''mailto:'' @ a))"

text \<open>
  The CALADDRESS of one participant \<open>jval\<close>, as the loop body of \<^verbatim>\<open>participants_to_ical\<close>
  computes it; \<open>Inr None\<close> is a \<^verbatim>\<open>caladdress\<close> left \<^verbatim>\<open>NULL\<close>.
\<close>

definition participant_caladdress :: "json \<Rightarrow> failure + string option" where
  "participant_caladdress jval =
     (let sendTo = json_object_get (Some jval) ''sendTo''
      in if json_object_get sendTo ''imip'' \<noteq> None
           then map_sum id Some (xstrdup (json_string_value (json_object_get sendTo ''imip'')))
         else if json_object_get sendTo ''other'' \<noteq> None
           then map_sum id Some (xstrdup (json_string_value (json_object_get sendTo ''imip'')))
         else if json_object_size sendTo \<noteq> 0
           then (let anymethod = fst (hd (json_object_members sendTo))
                 in map_sum id Some (xstrdup (json_string_value (json_object_get sendTo anymethod))))
         else if json_object_get (Some jval) ''email'' \<noteq> None
           then map_sum id Some
                  (mailaddr_to_uri (json_string_value (json_object_get (Some jval) ''email'')))
         else Inr None)"

fun map_caladdresses ::
  "(string \<times> json) list \<Rightarrow> string hash_table \<Rightarrow> failure + string hash_table" where
  "map_caladdresses [] table = Inr table"
| "map_caladdresses ((key, jval) # rest) table =
     (if \<not> is_valid_jmapid key then map_caladdresses rest table
      else
        (case participant_caladdress jval of
           Inl f \<Rightarrow> Inl f
         | Inr None \<Rightarrow> map_caladdresses rest table
         | Inr (Some caladdress) \<Rightarrow> map_caladdresses rest (hash_insert key caladdress table)))"

fun check_rsvpmethods :: "context_t \<Rightarrow> (string \<times> json) list \<Rightarrow> context_t" where
  "check_rsvpmethods ctx [] = ctx"
| "check_rsvpmethods ctx ((key, jval) # rest) =
     (if \<not> is_valid_rsvpmethod key \<or> \<not> json_is_string (Some jval)
      then check_rsvpmethods (invalidprop ctx (Some key)) rest
      else check_rsvpmethods ctx rest)"

text \<open>
  \<^verbatim>\<open>participants_to_ical\<close> up to the table of CALADDRESSes. What follows in the source
  (the ORGANIZER property and the loop that calls \<^verbatim>\<open>participant_to_ical\<close> with the
  table) is the parameter \<open>organizer_and_attendees\<close>.
\<close>

definition participants_to_ical ::
  "(context_t \<Rightarrow> icalcomponent \<Rightarrow> json option \<Rightarrow> string hash_table \<Rightarrow> context_t \<times> icalcomponent)
     \<Rightarrow> context_t \<Rightarrow> icalcomponent \<Rightarrow> json option \<Rightarrow> failure + context_t \<times> icalcomponent" where
  "participants_to_ical organizer_and_attendees ctx cmp event =
     (let cmp1 = remove_icalprop (remove_icalprop cmp ATTENDEE_PROPERTY) ORGANIZER_PROPERTY;
          replyTo = json_object_get event ''replyTo'';
          ctx1 = (if JNOTNULL replyTo \<and> json_object_size replyTo = 0
                  then invalidprop ctx (Some ''replyTo'') else ctx);
          participants = json_object_get event ''participants'';
          ctx2 = (if JNOTNULL participants \<and> json_object_size participants = 0
                  then invalidprop ctx1 (Some ''participants'') else ctx1)
      in if JNOTNULL replyTo \<noteq> JNOTNULL participants
           then Inr (invalidprop (invalidprop ctx2 (Some ''replyTo'')) (Some ''participants''), cmp1)
         else if \<not> JNOTNULL replyTo
           then Inr (ctx2, cmp1)
         else
           (let ctx3 = endprop (check_rsvpmethods (beginprop ctx2 ''replyTo'')
                                  (json_object_members replyTo))
            in case map_caladdresses (json_object_members participants) [] of
                 Inl f \<Rightarrow> Inl f
               | Inr caladdress_by_participant_id \<Rightarrow>
                   Inr (organizer_and_attendees ctx3 cmp1 event caladdress_by_participant_id)))"

text \<open>
  Samples for closed examples: a VEVENT with an ORGANIZER and one ATTENDEE, a VEVENT
  with an ATTENDEE and no ORGANIZER, an event that has a replyTo but no participants, and a continuation of \<^verbatim>\<open>participants_to_ical\<close> that
  leaves the state as it is.
\<close>

definition organizer_and_attendee :: icalcomponent where
  "organizer_and_attendee =
     Icalcomponent VEVENT_COMPONENT
       [\<lparr>isa = ORGANIZER_PROPERTY, prop_value = TEXT_VALUE ''mailto:o@example.com'',
           parameters = []\<rparr>,
        attendee ''mailto:a@example.com'' [X_PARAMETER ''X-JMAP-ID'' ''a'']] []"

definition attendee_only :: icalcomponent where
  "attendee_only =
     Icalcomponent VEVENT_COMPONENT
       [\<lparr>isa = UID_PROPERTY, prop_value = TEXT_VALUE ''u1'', parameters = []\<rparr>,
        attendee ''mailto:a@example.com'' [X_PARAMETER ''X-JMAP-ID'' ''a'']] []"

definition replyTo_only_event :: "json option" where
  "replyTo_only_event =
     Some (JObject [(''replyTo'', JObject [(''imip'', JString ''mailto:o@example.com'')])])"

definition skip_organizer_and_attendees ::
  "context_t \<Rightarrow> icalcomponent \<Rightarrow> json option \<Rightarrow> string hash_table \<Rightarrow> context_t \<times> icalcomponent" where
  "skip_organizer_and_attendees ctx cmp event table = (ctx, cmp)"

section \<open>Recurrence rules, JSON to ICAL\<close>

text \<open>
  \<^verbatim>\<open>json_unpack(x, "i", &val)\<close> fails unless \<open>x\<close> is an integer and stores it into an
  \<^verbatim>\<open>int\<close>. \<^verbatim>\<open>int_to_ical\<close> prints with \<^verbatim>\<open>%d\<close>.
\<close>

fun json_unpack_i :: "json \<Rightarrow> int option" where
  "json_unpack_i (JInteger v) = Some (int_of_json_int v)"
| "json_unpack_i _ = None"

definition int_to_ical :: "string \<Rightarrow> int \<Rightarrow> string" where
  "int_to_ical buf val = buf @ string_of_int val"

text \<open>
  The loop of \<^verbatim>\<open>recurrence_byX_to_ical\<close> over the elements from index \<open>i\<close> on. The
  bounds are pointers that may be \<^verbatim>\<open>NULL\<close>.
\<close>

fun byX_loop ::
  "(string \<Rightarrow> int \<Rightarrow> string) \<Rightarrow> int option \<Rightarrow> int option \<Rightarrow> bool \<Rightarrow> string \<Rightarrow> nat
     \<Rightarrow> json list \<Rightarrow> context_t \<times> string \<Rightarrow> context_t \<times> string" where
  "byX_loop conv lower upper allowZero fieldName i [] (ctx, buf) = (ctx, buf)"
| "byX_loop conv lower upper allowZero fieldName i (x # xs) (ctx, buf) =
     (case json_unpack_i x of
        None \<Rightarrow>
          byX_loop conv lower upper allowZero fieldName (i + 1) xs
            (endprop (invalidprop (beginprop_idx ctx fieldName i) None), buf)
      | Some val \<Rightarrow>
          if (\<not> allowZero \<and> val = 0)
             \<or> (case lower of None \<Rightarrow> False | Some l \<Rightarrow> val < l)
             \<or> (case upper of None \<Rightarrow> False | Some u \<Rightarrow> val > u)
          then byX_loop conv lower upper allowZero fieldName (i + 1) xs
                 (endprop (invalidprop (beginprop_idx ctx fieldName i) None), buf)
          else byX_loop conv lower upper allowZero fieldName (i + 1) xs
                 (ctx, conv (if i \<noteq> 0 then buf @ '','' else buf) val))"

fun json_array_elements :: "json \<Rightarrow> json list" where
  "json_array_elements (JArray xs) = xs"
| "json_array_elements _ = []"

definition recurrence_byX_to_ical ::
  "context_t \<Rightarrow> json \<Rightarrow> string \<Rightarrow> string \<Rightarrow> int option \<Rightarrow> int option \<Rightarrow> bool \<Rightarrow> string
     \<Rightarrow> (string \<Rightarrow> int \<Rightarrow> string) \<Rightarrow> context_t \<times> string" where
  "recurrence_byX_to_ical ctx byX buf tag lower upper allowZero fieldName conv =
     (if json_array_size (Some byX) = 0 then (invalidprop ctx (Some fieldName), buf)
      else byX_loop conv lower upper allowZero fieldName 0 (json_array_elements byX)
             (ctx, buf @ '';'' @ tag @ ''=''))"

text \<open>
  The blocks of \<^verbatim>\<open>recurrence_to_ical\<close> for the integer by-parts: the member \<open>name\<close> is
  read with format \<open>o\<close> and, when present, converted with the block's tag, bounds and
  field name. They run after \<^verbatim>\<open>beginprop(ctx, "recurrenceRule")\<close>.
\<close>

definition byX_block ::
  "string \<Rightarrow> string \<Rightarrow> int \<Rightarrow> int \<Rightarrow> bool \<Rightarrow> string
     \<Rightarrow> context_t \<Rightarrow> json option \<Rightarrow> string \<Rightarrow> context_t \<times> string" where
  "byX_block name tag lower upper allowZero fieldName ctx recur buf =
     (let (pe, ctx1) = readprop ctx recur name False Fmt_o
      in if pe > 0
         then (case json_object_get recur name of
                 None \<Rightarrow> (ctx1, buf)
               | Some byX \<Rightarrow>
                   recurrence_byX_to_ical ctx1 byX buf tag (Some lower) (Some upper) allowZero
                     fieldName int_to_ical)
         else (ctx1, buf))"

definition byDate_to_ical :: "context_t \<Rightarrow> json option \<Rightarrow> string \<Rightarrow> context_t \<times> string" where
  "byDate_to_ical = byX_block ''byDate'' ''BYDATE'' (- 31) 31 False ''byDate''"

definition byYearDay_to_ical :: "context_t \<Rightarrow> json option \<Rightarrow> string \<Rightarrow> context_t \<times> string" where
  "byYearDay_to_ical = byX_block ''byYearDay'' ''BYYEARDAY'' (- 366) 366 False ''byYearDay''"

definition byWeekNo_to_ical :: "context_t \<Rightarrow> json option \<Rightarrow> string \<Rightarrow> context_t \<times> string" where
  "byWeekNo_to_ical = byX_block ''byWeekNo'' ''BYWEEKNO'' (- 53) 53 False ''byWeekNo''"

definition byHour_to_ical :: "context_t \<Rightarrow> json option \<Rightarrow> string \<Rightarrow> context_t \<times> string" where
  "byHour_to_ical = byX_block ''byHour'' ''BYHOUR'' 0 23 True ''byHour''"

definition byMinute_to_ical :: "context_t \<Rightarrow> json option \<Rightarrow> string \<Rightarrow> context_t \<times> string" where
  "byMinute_to_ical = byX_block ''byMinute'' ''BYMINUTE'' 0 59 True ''byMinute''"

definition bySecond_to_ical :: "context_t \<Rightarrow> json option \<Rightarrow> string \<Rightarrow> context_t \<times> string" where
  "bySecond_to_ical = byX_block ''bySecond'' ''BYSECOND'' 0 59 True ''bySecond''"

definition bySetPosition_to_ical :: "context_t \<Rightarrow> json option \<Rightarrow> string \<Rightarrow> context_t \<times> string" where
  "bySetPosition_to_ical = byX_block ''bySetPosition'' ''BYSETPOS'' 0 59 True ''bySetPos''"

text \<open>A recurrence rule whose third bySetPosition element is out of range.\<close>

definition setpos_rule :: "json option" where
  "setpos_rule =
     Some (JObject [(''frequency'', JString ''yearly''),
                    (''bySetPosition'', JArray [JInteger 1, JInteger 2, JInteger 60])])"

section \<open>Events, JSON to ICAL\<close>

text \<open>
  The VCALENDAR under construction: its own properties, the master VEVENT that
  \<^verbatim>\<open>comp\<close> points to, and its other components.
\<close>

record icaltree =
  vcalendar_properties :: "icalproperty list"
  master :: icalcomponent
  others :: "icalcomponent list"

text \<open>
  libical's setters for a property that occurs once: the first property of the kind gets
  the value, and a new property is added when there is none.
\<close>

fun set_first_value ::
  "icalproperty_kind \<Rightarrow> icalvalue \<Rightarrow> icalproperty list \<Rightarrow> icalproperty list" where
  "set_first_value kind v [] = [\<lparr>isa = kind, prop_value = v, parameters = []\<rparr>]"
| "set_first_value kind v (p # ps) =
     (if isa p = kind then p\<lparr>prop_value := v\<rparr> # ps else p # set_first_value kind v ps)"

definition icalcomponent_set_value ::
  "icalcomponent \<Rightarrow> icalproperty_kind \<Rightarrow> icalvalue \<Rightarrow> icalcomponent" where
  "icalcomponent_set_value cmp kind v =
     Icalcomponent (comp_isa cmp) (set_first_value kind v (properties cmp)) (components cmp)"

definition icalcomponent_set_sequence :: "icalcomponent \<Rightarrow> int \<Rightarrow> icalcomponent" where
  "icalcomponent_set_sequence cmp v = icalcomponent_set_value cmp SEQUENCE_PROPERTY (INTEGER_VALUE v)"

definition icalcomponent_set_dtstamp :: "icalcomponent \<Rightarrow> icaltimetype \<Rightarrow> icalcomponent" where
  "icalcomponent_set_dtstamp cmp t = icalcomponent_set_value cmp DTSTAMP_PROPERTY (DATETIME_VALUE t)"

definition icalcomponent_set_summary :: "icalcomponent \<Rightarrow> string \<Rightarrow> icalcomponent" where
  "icalcomponent_set_summary cmp s = icalcomponent_set_value cmp SUMMARY_PROPERTY (TEXT_VALUE s)"

text \<open>
  \<^verbatim>\<open>icalcomponent_set_uid(comp, ctx->uid)\<close>. libical refuses a \<^verbatim>\<open>NULL\<close> value and leaves
  the component as it is.
\<close>

definition icalcomponent_set_uid :: "icalcomponent \<Rightarrow> string option \<Rightarrow> icalcomponent" where
  "icalcomponent_set_uid cmp uid =
     (case uid of None \<Rightarrow> cmp | Some u \<Rightarrow> icalcomponent_set_value cmp UID_PROPERTY (TEXT_VALUE u))"

text \<open>
  The current time in UTC, as \<^verbatim>\<open>icaltime_current_time_with_zone(utc)\<close> and
  \<^verbatim>\<open>icaltime_from_timet_with_zone(time(NULL), 0, utc)\<close> return it: a date-time, not a
  date, in UTC. The reading of the clock is a parameter.
\<close>

definition utc_time_of_clock :: "icaltimetype \<Rightarrow> icaltimetype" where
  "utc_time_of_clock clock = clock\<lparr>is_date := False, is_utc := True\<rparr>"

text \<open>A timezone is given by its location name; \<^verbatim>\<open>NULL\<close> is no timezone.\<close>

definition dtprop_to_ical ::
  "icalcomponent \<Rightarrow> icaltimetype \<Rightarrow> string option \<Rightarrow> bool \<Rightarrow> icalproperty_kind \<Rightarrow> icalcomponent" where
  "dtprop_to_ical cmp dt tz purge kind =
     (let cmp1 = (if purge then remove_icalprop cmp kind else cmp);
          cmp2 = (if kind = DTEND_PROPERTY then remove_icalprop cmp1 DURATION_PROPERTY
                  else if kind = DURATION_PROPERTY then remove_icalprop cmp1 DTEND_PROPERTY
                  else cmp1);
          val = (if is_date dt then DATE_VALUE dt else DATETIME_VALUE dt);
          params = (case tz of
                      None \<Rightarrow> []
                    | Some tzid \<Rightarrow> if \<not> is_utc dt then [TZID_PARAMETER tzid] else [])
      in icalcomponent_add_property cmp2 \<lparr>isa = kind, prop_value = val, parameters = params\<rparr>)"

definition utc_timezone :: "string option" where
  "utc_timezone = Some ''UTC''"

text \<open>
  The blocks of \<^verbatim>\<open>calendarevent_to_ical\<close> for created, updated and sequence, and for
  priority. The first does not look at the event.
\<close>

definition created_updated_sequence_to_ical :: "icalcomponent \<Rightarrow> icaltimetype \<Rightarrow> icalcomponent" where
  "created_updated_sequence_to_ical cmp now =
     icalcomponent_set_sequence
       (dtprop_to_ical (dtprop_to_ical cmp now utc_timezone True CREATED_PROPERTY)
          now utc_timezone True DTSTAMP_PROPERTY) 0"

definition priority_to_ical ::
  "context_t \<Rightarrow> icalcomponent \<Rightarrow> json option \<Rightarrow> context_t \<times> icalcomponent" where
  "priority_to_ical ctx cmp event =
     (let jprio = json_object_get event ''priority''
      in if json_integer_value jprio \<ge> 0 \<or> json_integer_value jprio \<le> 9
           then (ctx, icalcomponent_add_property cmp
                        \<lparr>isa = PRIORITY_PROPERTY,
                           prop_value = INTEGER_VALUE (int_of_json_int (json_integer_value jprio)),
                           parameters = []\<rparr>)
         else if JNOTNULL jprio then (invalidprop ctx (Some ''priority''), cmp)
         else (ctx, cmp))"

text \<open>
  \<^verbatim>\<open>calendarevent_to_ical\<close> for the master event. Two stretches of the function are
  parameters: the conversion of start, duration, timeZone, relatedTo and prodId, and
  everything from the description to the recurrence overrides. So is
  \<^verbatim>\<open>icalcomponent_add_required_timezones\<close>, which \<^verbatim>\<open>jmapical_toical\<close> calls.
\<close>

record toical_ops =
  startend_relatedto_prodid ::
    "context_t \<Rightarrow> icaltree \<Rightarrow> json option \<Rightarrow> context_t \<times> icaltree"
  description_to_overrides ::
    "context_t \<Rightarrow> icaltree \<Rightarrow> json option \<Rightarrow> context_t \<times> icaltree"
  icalcomponent_add_required_timezones :: "icaltree \<Rightarrow> icaltree"

text \<open>The first blocks: excluded, uid, type tag and isAllDay.\<close>

definition event_head_to_ical :: "context_t \<Rightarrow> icaltree \<Rightarrow> json option \<Rightarrow> context_t \<times> icaltree" where
  "event_head_to_ical ctx tree event =
     (let excluded = json_object_get event ''excluded'';
          ctx = (if excluded \<noteq> None \<and> excluded \<noteq> Some JFalse
                 then invalidprop ctx (Some ''excluded'') else ctx);
          tree = tree\<lparr>master := icalcomponent_set_uid (master tree) (ctx_uid ctx)\<rparr>;
          jtype = json_object_get event ''@type'';
          ctx = (if JNOTNULL jtype \<and> json_is_string jtype
                 then (if json_string_value jtype \<noteq> Some ''jsevent''
                       then invalidprop ctx (Some ''@type'') else ctx)
                 else if JNOTNULL jtype then invalidprop ctx (Some ''@type'')
                 else ctx);
          (pe, ctx) = readprop ctx event ''isAllDay'' True Fmt_b;
          ctx = (if pe > 0 then ctx\<lparr>is_allday := (json_object_get event ''isAllDay'' = Some JTrue)\<rparr>
                 else ctx)
      in (ctx, tree))"

text \<open>The title block.\<close>

definition title_to_ical :: "context_t \<Rightarrow> icaltree \<Rightarrow> json option \<Rightarrow> context_t \<times> icaltree" where
  "title_to_ical ctx tree event =
     (let (pe, ctx) = readprop ctx event ''title'' True Fmt_s;
          tree = (if pe > 0
                  then (case json_string_value (json_object_get event ''title'') of
                          None \<Rightarrow> tree
                        | Some val \<Rightarrow> tree\<lparr>master := icalcomponent_set_summary (master tree) val\<rparr>)
                  else tree)
      in (ctx, tree))"

text \<open>
  The end of the function: it returns when there are invalid properties, and otherwise
  checks that ORGANIZER and ATTENDEE are both there or both missing.
\<close>

definition organizer_attendee_check :: "context_t \<Rightarrow> icaltree \<Rightarrow> context_t \<times> icaltree" where
  "organizer_attendee_check ctx tree =
     (if have_invalid_props ctx then (ctx, tree)
      else if (icalcomponent_get_first_property (master tree) ORGANIZER_PROPERTY = None)
              \<noteq> (icalcomponent_get_first_property (master tree) ATTENDEE_PROPERTY = None)
        then (invalidprop (invalidprop ctx (Some ''replyTo'')) (Some ''participants''), tree)
      else (ctx, tree))"

definition calendarevent_to_ical ::
  "toical_ops \<Rightarrow> icaltimetype \<Rightarrow> context_t \<Rightarrow> icaltree \<Rightarrow> json option \<Rightarrow> context_t \<times> icaltree" where
  "calendarevent_to_ical E clock ctx tree event =
     (let now = utc_time_of_clock clock;
          (ctx, tree) = event_head_to_ical ctx tree event;
          (ctx, tree) = startend_relatedto_prodid E ctx tree event;
          tree = tree\<lparr>master := created_updated_sequence_to_ical (master tree) now\<rparr>;
          (ctx, cmp) = priority_to_ical ctx (master tree) event;
          tree = tree\<lparr>master := cmp\<rparr>;
          (ctx, tree) = title_to_ical ctx tree event;
          (ctx, tree) = description_to_overrides E ctx tree event
      in organizer_attendee_check ctx tree)"

text \<open>
  \<^verbatim>\<open>jmapical_toical\<close>. The caller's error record is optional; the result is the tree,
  or \<^verbatim>\<open>NULL\<close>, and the caller's record after the call. \<open>clock0\<close> and \<open>clock\<close> are the two
  readings of the clock, here and in \<^verbatim>\<open>calendarevent_to_ical\<close>.
\<close>

definition new_vcalendar :: "icaltimetype \<Rightarrow> icaltree" where
  "new_vcalendar clock0 =
     (let now = utc_time_of_clock clock0;
          cmp = Icalcomponent VEVENT_COMPONENT [] [];
          cmp = icalcomponent_set_sequence cmp 0;
          cmp = icalcomponent_set_dtstamp cmp now;
          cmp = icalcomponent_add_property cmp
                  \<lparr>isa = CREATED_PROPERTY, prop_value = DATETIME_VALUE now, parameters = []\<rparr>
      in \<lparr>vcalendar_properties =
            [\<lparr>isa = VERSION_PROPERTY, prop_value = TEXT_VALUE ''2.0'', parameters = []\<rparr>,
             \<lparr>isa = CALSCALE_PROPERTY, prop_value = TEXT_VALUE ''GREGORIAN'', parameters = []\<rparr>],
          master = cmp, others = []\<rparr>)"

definition jmapical_toical ::
  "toical_ops \<Rightarrow> icaltimetype \<Rightarrow> icaltimetype \<Rightarrow> json option \<Rightarrow> jmapical_err_t option
     \<Rightarrow> icaltree option \<times> jmapical_err_t option" where
  "jmapical_toical E clock0 clock obj e =
     (let ical = new_vcalendar clock0;
          ctx = context_new e;
          ctx = ctx\<lparr>ctx_uid := json_string_value (json_object_get obj ''uid'')\<rparr>
      in if ctx_uid ctx = None
         then (None, map_option (\<lambda>r. r\<lparr>err_code := JMAPICAL_ERROR_UID\<rparr>) e)
         else
           (let (ctx, ical) = calendarevent_to_ical E clock ctx ical obj;
                ical = icalcomponent_add_required_timezones E ical;
                (ctx, result) =
                  (if have_invalid_props ctx \<and> e \<noteq> None
                   then (ctx\<lparr>err := \<lparr>err_code = JMAPICAL_ERROR_PROPS,
                                      err_props = get_invalid_props ctx\<rparr>\<rparr>, None)
                   else (ctx, Some ical));
                result = (if err_code (err ctx) \<noteq> JMAPICAL_SUCCESS then None else result)
            in (result, map_option (\<lambda>r. err ctx) e)))"

text \<open>
  Samples for closed examples: operations that leave the state as it is, a clock
  reading, a caller's error record, an event that is well-formed except for its
  \<open>excluded\<close> and \<open>@type\<close> members, and a well-formed event that carries created, updated,
  sequence and a priority of 10.
\<close>

definition skip_toical_ops :: toical_ops where
  "skip_toical_ops =
     \<lparr>startend_relatedto_prodid = (\<lambda>ctx tree event. (ctx, tree)),
      description_to_overrides = (\<lambda>ctx tree event. (ctx, tree)),
      icalcomponent_add_required_timezones = (\<lambda>tree. tree)\<rparr>"

definition sample_clock :: icaltimetype where
  "sample_clock =
     \<lparr>year = 2021, month = 3, day = 15, hour = 9, minute = 0, second = 0,
      is_date = False, is_utc = True\<rparr>"

definition fresh_err :: jmapical_err_t where
  "fresh_err = \<lparr>err_code = JMAPICAL_SUCCESS, err_props = None\<rparr>"

definition bad_type_event :: "json option" where
  "bad_type_event =
     Some (JObject [(''uid'', JString ''u1''), (''excluded'', JTrue), (''@type'', JString ''x''),
                    (''isAllDay'', JFalse), (''timeZone'', JNull),
                    (''start'', JString ''2021-03-15T09:00:00''), (''title'', JString ''t'')])"

definition stamped_event :: "json option" where
  "stamped_event =
     Some (JObject [(''uid'', JString ''u1''), (''@type'', JString ''jsevent''),
                    (''isAllDay'', JFalse), (''timeZone'', JNull),
                    (''start'', JString ''2021-03-15T09:00:00''), (''title'', JString ''t''),
                    (''created'', JString ''2001-01-01T00:00:00Z''),
                    (''updated'', JString ''2002-02-02T00:00:00Z''),
                    (''sequence'', JInteger 7), (''priority'', JInteger 10)])"

definition earlier_clock :: icaltimetype where
  "earlier_clock =
     \<lparr>year = 2021, month = 3, day = 15, hour = 8, minute = 59, second = 59,
      is_date = False, is_utc = True\<rparr>"

text \<open>
  A stretch of \<^verbatim>\<open>calendarevent_to_ical\<close> taken as a parameter keeps the stamps when it
  leaves the CREATED, DTSTAMP and SEQUENCE properties of the master VEVENT as they are.
\<close>

definition keeps_stamps ::
  "(context_t \<Rightarrow> icaltree \<Rightarrow> json option \<Rightarrow> context_t \<times> icaltree) \<Rightarrow> bool" where
  "keeps_stamps step =
     (\<forall>ctx tree event k. k \<in> {CREATED_PROPERTY, DTSTAMP_PROPERTY, SEQUENCE_PROPERTY} \<longrightarrow>
        get_properties (master (snd (step ctx tree event))) k = get_properties (master tree) k)"

section \<open>Alarms, ICAL to JSON\<close>

fun first_related :: "icalparameter list \<Rightarrow> icalparameter_related option" where
  "first_related [] = None"
| "first_related (RELATED_PARAMETER r # ps) = Some r"
| "first_related (_ # ps) = first_related ps"

fun first_reltype :: "icalparameter list \<Rightarrow> string option" where
  "first_reltype [] = None"
| "first_reltype (RELTYPE_PARAMETER v # ps) = Some v"
| "first_reltype (_ # ps) = first_reltype ps"

text \<open>
  The value of a TRIGGER property as \<^verbatim>\<open>struct icaltriggertype\<close>, and libical's null
  time and null duration with their tests.
\<close>

definition icaltime_null_time :: icaltimetype where
  "icaltime_null_time =
     \<lparr>year = 0, month = 0, day = 0, hour = 0, minute = 0, second = 0,
      is_date = False, is_utc = False\<rparr>"

definition icaldurationtype_null_duration :: icaldurationtype where
  "icaldurationtype_null_duration =
     \<lparr>is_neg = False, days = 0, weeks = 0, hours = 0, minutes = 0, seconds = 0\<rparr>"

definition icaltime_is_null_time :: "icaltimetype \<Rightarrow> bool" where
  "icaltime_is_null_time t = (second t + minute t + hour t + day t + month t + year t = 0)"

definition icaldurationtype_is_null_duration :: "icaldurationtype \<Rightarrow> bool" where
  "icaldurationtype_is_null_duration d =
     (seconds d + 60 * minutes d + 3600 * hours d + 86400 * days d + 604800 * weeks d = 0)"

fun icalproperty_get_trigger :: "icalproperty \<Rightarrow> icaltimetype \<times> icaldurationtype" where
  "icalproperty_get_trigger prop =
     (case prop_value prop of
        TRIGGER_VALUE t d \<Rightarrow> (t, d)
      | _ \<Rightarrow> (icaltime_null_time, icaldurationtype_null_duration))"

text \<open>
  What \<^verbatim>\<open>alerts_from_ical\<close> takes from outside: the SHA-1 key of an alarm's iCalendar
  text; the offset of an absolute trigger time from the start or the end of the event,
  which is computed in UTC from the properties of the VEVENT; the iCalendar text of a
  duration; the UTC date string of the alarm's ACKNOWLEDGED property when it has a valid
  one; and the UTC date string of a snooze trigger time unless that time is null or
  invalid.
\<close>

record alarm_ops =
  alarm_sha1key :: "icalcomponent \<Rightarrow> string"
  trigger_offset :: "icalproperty list \<Rightarrow> icalparameter_related \<Rightarrow> icaltimetype \<Rightarrow> icaldurationtype"
  icaldurationtype_as_ical_string :: "icaldurationtype \<Rightarrow> string"
  acknowledged_from_ical :: "icalcomponent \<Rightarrow> string option"
  snoozed_from_ical :: "icaltimetype \<Rightarrow> string option"

text \<open>The first loop: alarms with action NONE are ignored, snoozes are set aside.\<close>

definition action_is_none :: "icalcomponent \<Rightarrow> bool" where
  "action_is_none alarm =
     (case icalcomponent_get_first_property alarm ACTION_PROPERTY of
        None \<Rightarrow> False
      | Some p \<Rightarrow> strcaseeq (icalproperty_get_value_as_string p) ''NONE'')"

definition snooze_uid :: "icalcomponent \<Rightarrow> string option" where
  "snooze_uid alarm =
     (case icalcomponent_get_first_property alarm RELATEDTO_PROPERTY of
        None \<Rightarrow> None
      | Some p \<Rightarrow>
          (let uid = icalproperty_get_value_as_string p
           in if length uid = 0 then None
              else (case first_reltype (parameters p) of
                      None \<Rightarrow> None
                    | Some v \<Rightarrow> if strcaseeq v ''SNOOZE'' then Some uid else None)))"

fun split_alarms ::
  "icalcomponent list \<Rightarrow> icalcomponent list \<times> icalcomponent hash_table
     \<Rightarrow> icalcomponent list \<times> icalcomponent hash_table" where
  "split_alarms [] acc = acc"
| "split_alarms (alarm # rest) (alarms, snoozes) =
     (if action_is_none alarm then split_alarms rest (alarms, snoozes)
      else (case snooze_uid alarm of
              None \<Rightarrow> split_alarms rest (ptrarray_append alarms alarm, snoozes)
            | Some uid \<Rightarrow> split_alarms rest (alarms, hash_insert uid alarm snoozes)))"

text \<open>
  The body of the second loop for one alarm, after its TRIGGER and RELATED have been
  determined: the members of the alert.
\<close>

definition build_alert ::
  "alarm_ops \<Rightarrow> icalproperty list \<Rightarrow> icalcomponent hash_table \<Rightarrow> icalcomponent
     \<Rightarrow> icaltimetype \<times> icaldurationtype \<Rightarrow> icalparameter_related \<Rightarrow> (string \<times> json) list" where
  "build_alert P props snoozes alarm trigger related =
     (let duration =
            (if \<not> icaldurationtype_is_null_duration (snd trigger)
                \<or> icaltime_is_null_time (fst trigger)
             then snd trigger
             else trigger_offset P props related (fst trigger));
          action =
            (case icalcomponent_get_first_property alarm ACTION_PROPERTY of
               None \<Rightarrow> ''display''
             | Some p \<Rightarrow> if strcaseeq (icalproperty_get_value_as_string p) ''EMAIL''
                         then ''email'' else ''display'');
          relative_to =
            (if is_neg duration
             then (if related = RELATED_START then ''before-start'' else ''before-end'')
             else (if related = RELATED_START then ''after-start'' else ''after-end''));
          offset = icaldurationtype_as_ical_string P (duration\<lparr>is_neg := False\<rparr>);
          alert = object_set [] ''action'' (JString action);
          alert = object_set alert ''relativeTo'' (JString relative_to);
          alert = object_set alert ''offset'' (JString offset);
          alert = (case acknowledged_from_ical P alarm of
                     None \<Rightarrow> alert
                   | Some val \<Rightarrow> object_set alert ''acknowledged'' (JString val));
          snoozed =
            (case icalcomponent_get_uid alarm of
               None \<Rightarrow> None
             | Some uid \<Rightarrow>
                 (case hash_lookup uid snoozes of
                    None \<Rightarrow> None
                  | Some snooze \<Rightarrow>
                      (case icalcomponent_get_first_property snooze TRIGGER_PROPERTY of
                         None \<Rightarrow> None
                       | Some p \<Rightarrow> snoozed_from_ical P (fst (icalproperty_get_trigger p)))))
      in case snoozed of
           None \<Rightarrow> alert
         | Some val \<Rightarrow> object_set alert ''snoozed'' (JString val))"

text \<open>
  The body of the second loop for one alarm. An alarm whose TRIGGER has a RELATED
  parameter other than START and END takes the early \<^verbatim>\<open>continue\<close>. On the other path
  the segment pushed by \<^verbatim>\<open>beginprop_key\<close> stays on the stack, as in the source.
\<close>

definition alert_from_ical ::
  "alarm_ops \<Rightarrow> icalproperty list \<Rightarrow> icalcomponent hash_table \<Rightarrow> icalcomponent
     \<Rightarrow> (string \<times> json) list \<times> context_t \<Rightarrow> (string \<times> json) list \<times> context_t" where
  "alert_from_ical P props snoozes alarm st =
     (let alerts = fst st;
          ctx = snd st;
          aid = (case icalcomponent_get_uid alarm of
                   None \<Rightarrow> alarm_sha1key P alarm
                 | Some uid \<Rightarrow> uid);
          ctx = beginprop_key ctx ''alerts'' aid;
          tprop = icalcomponent_get_first_property alarm TRIGGER_PROPERTY;
          trigger = (case tprop of
                       None \<Rightarrow> (icaltime_null_time, icaldurationtype_null_duration)
                     | Some p \<Rightarrow> icalproperty_get_trigger p);
          rparam = (case tprop of None \<Rightarrow> None | Some p \<Rightarrow> first_related (parameters p));
          related = (case rparam of None \<Rightarrow> RELATED_START | Some r \<Rightarrow> r)
      in if rparam \<noteq> None \<and> related \<noteq> RELATED_START \<and> related \<noteq> RELATED_END
         then (alerts, endprop ctx)
         else (object_set alerts aid
                 (JObject (build_alert P props snoozes alarm trigger related)), ctx))"

text \<open>The second loop pops the alarms from the end of the array.\<close>

function convert_alarms ::
  "alarm_ops \<Rightarrow> icalproperty list \<Rightarrow> icalcomponent hash_table \<Rightarrow> icalcomponent list
     \<Rightarrow> (string \<times> json) list \<times> context_t \<Rightarrow> (string \<times> json) list \<times> context_t" where
  "convert_alarms P props snoozes alarms st =
     (case ptrarray_pop alarms of
        None \<Rightarrow> st
      | Some (alarm, alarms') \<Rightarrow>
          convert_alarms P props snoozes alarms' (alert_from_ical P props snoozes alarm st))"
  by pat_completeness auto
termination
  by (relation "measure (\<lambda>(P, props, snoozes, alarms, st). length alarms)")
     (auto simp: ptrarray_pop_def split: if_splits)

declare convert_alarms.simps [simp del]

definition alerts_from_ical :: "alarm_ops \<Rightarrow> context_t \<Rightarrow> icalcomponent \<Rightarrow> json \<times> context_t" where
  "alerts_from_ical P ctx cmp =
     (let (alarms, snoozes) = split_alarms (get_components cmp VALARM_COMPONENT) ([], []);
          (alerts, ctx) = convert_alarms P (properties cmp) snoozes alarms ([], ctx)
      in (if length alerts = 0 then JNull else JObject alerts, ctx))"

text \<open>
  An alarm takes the early \<^verbatim>\<open>continue\<close> when its TRIGGER has a RELATED parameter that is
  neither START nor END.
\<close>

definition related_is_other :: "icalcomponent \<Rightarrow> bool" where
  "related_is_other alarm =
     (case icalcomponent_get_first_property alarm TRIGGER_PROPERTY of
        None \<Rightarrow> False
      | Some p \<Rightarrow>
          (case first_related (parameters p) of
             None \<Rightarrow> False
           | Some r \<Rightarrow> r \<noteq> RELATED_START \<and> r \<noteq> RELATED_END))"

text \<open>
  Samples for closed examples: operations that print every duration as \<open>PT15M\<close> and find
  nothing else, an alarm whose trigger is RELATED=X, and an alarm 15 minutes before the
  start.
\<close>

definition sample_alarm_ops :: alarm_ops where
  "sample_alarm_ops =
     \<lparr>alarm_sha1key = (\<lambda>alarm. ''0''),
      trigger_offset = (\<lambda>props related t. icaldurationtype_null_duration),
      icaldurationtype_as_ical_string = (\<lambda>d. ''PT15M''),
      acknowledged_from_ical = (\<lambda>alarm. None),
      snoozed_from_ical = (\<lambda>t. None)\<rparr>"

definition quarter_hour_before :: icaldurationtype where
  "quarter_hour_before =
     \<lparr>is_neg = True, days = 0, weeks = 0, hours = 0, minutes = 15, seconds = 0\<rparr>"

definition odd_alarm :: icalcomponent where
  "odd_alarm =
     Icalcomponent VALARM_COMPONENT
       [\<lparr>isa = UID_PROPERTY, prop_value = TEXT_VALUE ''a1'', parameters = []\<rparr>,
        \<lparr>isa = ACTION_PROPERTY, prop_value = TEXT_VALUE ''DISPLAY'', parameters = []\<rparr>,
        \<lparr>isa = TRIGGER_PROPERTY, prop_value = TRIGGER_VALUE icaltime_null_time quarter_hour_before,
           parameters = [RELATED_PARAMETER RELATED_X]\<rparr>] []"

definition start_alarm :: icalcomponent where
  "start_alarm =
     Icalcomponent VALARM_COMPONENT
       [\<lparr>isa = UID_PROPERTY, prop_value = TEXT_VALUE ''a2'', parameters = []\<rparr>,
        \<lparr>isa = ACTION_PROPERTY, prop_value = TEXT_VALUE ''DISPLAY'', parameters = []\<rparr>,
        \<lparr>isa = TRIGGER_PROPERTY, prop_value = TRIGGER_VALUE icaltime_null_time quarter_hour_before,
           parameters = [RELATED_PARAMETER RELATED_START]\<rparr>] []"

section \<open>Recurrence overrides, JSON to ICAL\<close>

definition hash_del :: "string \<Rightarrow> 'v hash_table \<Rightarrow> 'v option \<times> 'v hash_table" where
  "hash_del key table = (map_of table key, filter (\<lambda>kv. fst kv \<noteq> key) table)"

fun json_object_del :: "json \<Rightarrow> string \<Rightarrow> json" where
  "json_object_del (JObject kvs) key = JObject (filter (\<lambda>kv. fst kv \<noteq> key) kvs)"
| "json_object_del j key = j"

text \<open>\<^verbatim>\<open>json_object_set_new\<close> on a value that may not be an object.\<close>

fun json_object_set :: "json \<Rightarrow> string \<Rightarrow> json \<Rightarrow> json" where
  "json_object_set (JObject kvs) key v = JObject (object_set kvs key v)"
| "json_object_set j key v = j"

text \<open>
  What \<^verbatim>\<open>overrides_to_ical\<close> takes from outside: the parser of a LocalDate in the start
  timezone of the context (\<open>None\<close> when it fails), the LocalDate of the RECURRENCE-ID of an
  existing exception, the conversion of the master VEVENT to JSON in a fresh context, the
  patch engine, the conversion of the patched event into the exception VEVENT in
  exception mode (it returns its own context and the VEVENT), and the start timezone.
\<close>

record override_ops =
  localdate_to_icaltime :: "string \<Rightarrow> icaltimetype option"
  recurrenceid_localdate :: "icalcomponent \<Rightarrow> string"
  master_from_ical :: "icalcomponent \<Rightarrow> json option"
  jmap_patchobject_apply :: "json \<Rightarrow> json \<Rightarrow> json option"
  exception_to_ical :: "jmapical_err_t \<Rightarrow> icalcomponent \<Rightarrow> json \<Rightarrow> context_t \<times> icalcomponent"
  tzstart :: "string option"

definition forbidden_override_keys :: "string list" where
  "forbidden_override_keys =
     [''uid'', ''relatedTo'', ''prodId'', ''isAllDay'', ''recurrenceRule'',
      ''recurrenceOverrides'', ''replyTo'', ''participantId'']"

text \<open>The loop that sets \<^verbatim>\<open>ignore\<close>: some member of the patch has a forbidden name.\<close>

definition has_forbidden_key :: "json \<Rightarrow> bool" where
  "has_forbidden_key override =
     list_ex (\<lambda>kv. fst kv \<in> set forbidden_override_keys) (json_object_members (Some override))"

text \<open>
  The body of the loop over the overrides, on the context, the tree and the cache of
  existing exceptions. On the \<^verbatim>\<open>continue\<close> for a forbidden key the source does not
  call \<^verbatim>\<open>endprop\<close>. The exception's context shares the error record of \<open>ctx\<close>.
\<close>

definition override_to_ical ::
  "override_ops \<Rightarrow> json \<Rightarrow> string \<times> json
     \<Rightarrow> context_t \<times> icaltree \<times> icalcomponent hash_table
     \<Rightarrow> context_t \<times> icaltree \<times> icalcomponent hash_table" where
  "override_to_ical P master_event entry st =
     (let rid = fst entry;
          override = snd entry;
          ctx = fst st;
          tree = fst (snd st);
          recurs = snd (snd st);
          ctx = beginprop_key ctx ''recurrenceOverrides'' rid
      in case localdate_to_icaltime P rid of
           None \<Rightarrow> (endprop (invalidprop ctx None), tree, recurs)
         | Some start \<Rightarrow>
             (let excluded = json_object_get (Some override) ''excluded''
              in if excluded \<noteq> None
                 then (if json_object_size (Some override) = 1 \<and> excluded = Some JTrue
                       then (endprop ctx,
                             tree\<lparr>master := dtprop_to_ical (master tree) start (tzstart P) False
                                                EXDATE_PROPERTY\<rparr>,
                             recurs)
                       else (endprop (invalidprop ctx (Some rid)), tree, recurs))
                 else if json_object_size (Some override) = 0
                 then (endprop ctx,
                       tree\<lparr>master := dtprop_to_ical (master tree) start (tzstart P) False
                                          RDATE_PROPERTY\<rparr>,
                       recurs)
                 else if has_forbidden_key override
                 then (ctx, tree, recurs)
                 else
                   (let override = (if json_object_get (Some override) ''start'' = None
                                    then json_object_set override ''start'' (JString rid)
                                    else override)
                    in case jmap_patchobject_apply P master_event override of
                         None \<Rightarrow> (endprop (invalidprop ctx None), tree, recurs)
                       | Some ex \<Rightarrow>
                           (let found = hash_del rid recurs;
                                excomp =
                                  (case fst found of
                                     None \<Rightarrow>
                                       remove_icalprop
                                         (remove_icalprop
                                            (remove_icalprop (master tree) RDATE_PROPERTY)
                                            EXDATE_PROPERTY)
                                         RRULE_PROPERTY
                                   | Some c \<Rightarrow> c);
                                recurs = (case fst found of None \<Rightarrow> recurs | Some c \<Rightarrow> snd found);
                                excomp = dtprop_to_ical excomp start (tzstart P) True
                                           RECURRENCEID_PROPERTY;
                                converted = exception_to_ical P (err ctx) excomp ex;
                                toctx = fst converted;
                                ctx = ctx\<lparr>err := err toctx\<rparr>;
                                ctx = (if have_invalid_props toctx
                                       then invalidprop_append ctx (invalid toctx) else ctx)
                            in (endprop ctx, tree\<lparr>others := others tree @ [snd converted]\<rparr>,
                                recurs)))))"

text \<open>
  \<^verbatim>\<open>overrides_to_ical\<close>: EXDATE and RDATE are purged, the other VEVENTs of the VCALENDAR
  are moved to the cache under the LocalDate of their RECURRENCE-ID, and the overrides
  are converted one after the other against the master event without its recurrence
  members. What is left in the cache is freed.
\<close>

definition overrides_to_ical ::
  "override_ops \<Rightarrow> context_t \<Rightarrow> icaltree \<Rightarrow> json \<Rightarrow> context_t \<times> icaltree" where
  "overrides_to_ical P ctx tree overrides =
     (let cmp = remove_icalprop (remove_icalprop (master tree) RDATE_PROPERTY) EXDATE_PROPERTY;
          recurs = fold (\<lambda>excomp table. hash_insert (recurrenceid_localdate P excomp) excomp table)
                     (filter (\<lambda>c. comp_isa c = VEVENT_COMPONENT) (others tree)) [];
          tree = tree\<lparr>master := cmp,
                      others := filter (\<lambda>c. comp_isa c \<noteq> VEVENT_COMPONENT) (others tree)\<rparr>
      in if overrides = JNull then (ctx, tree)
         else (case master_from_ical P cmp of
                 None \<Rightarrow> (ctx\<lparr>err := (err ctx)\<lparr>err_code := JMAPICAL_ERROR_UNKNOWN\<rparr>\<rparr>, tree)
               | Some m \<Rightarrow>
                   (let master_event = json_object_del (json_object_del m ''recurrenceRule'')
                                         ''recurrenceOverrides'';
                        st = fold (override_to_ical P master_event)
                               (json_object_members (Some overrides)) (ctx, tree, recurs)
                    in (fst st, fst (snd st)))))"

text \<open>
  Samples for closed examples. The operations parse one LocalDate, convert the master
  to its type tag and uid, apply a patch by setting its members in the master event, and
  convert an exception by writing its title. The tree holds one master VEVENT. The two
  patches change the title; the first also has the forbidden member \<open>uid\<close>.
\<close>

definition monday_nine :: icaltimetype where
  "monday_nine =
     \<lparr>year = 2021, month = 3, day = 22, hour = 9, minute = 0, second = 0,
      is_date = False, is_utc = False\<rparr>"

definition sample_override_ops :: override_ops where
  "sample_override_ops =
     \<lparr>localdate_to_icaltime =
        (\<lambda>s. if s = ''2021-03-22T09:00:00'' then Some monday_nine else None),
      recurrenceid_localdate = (\<lambda>excomp. []),
      master_from_ical = calendarevent_from_ical_uid,
      jmap_patchobject_apply =
        (\<lambda>m p. Some (fold (\<lambda>kv j. json_object_set j (fst kv) (snd kv))
                        (json_object_members (Some p)) m)),
      exception_to_ical =
        (\<lambda>e excomp ex.
           (context_new (Some e),
            (case json_string_value (json_object_get (Some ex) ''title'') of
               None \<Rightarrow> excomp
             | Some title \<Rightarrow> icalcomponent_set_summary excomp title))),
      tzstart = None\<rparr>"

definition weekly_tree :: icaltree where
  "weekly_tree = \<lparr>vcalendar_properties = [], master = uid_vevent ''u1'', others = []\<rparr>"

definition patch_with_uid :: json where
  "patch_with_uid = JObject [(''title'', JString ''Moved''), (''uid'', JString ''x'')]"

definition patch_without_uid :: json where
  "patch_without_uid = JObject [(''title'', JString ''Moved'')]"

section \<open>Results: ICAL to JSON entry points\<close>

lemma convert_vevents_eq:
  "convert_vevents conv todo events = events @ List.map_filter conv (rev todo)"
proof (induction todo arbitrary: events rule: rev_induct)
  case Nil
  show ?case by (subst convert_vevents.simps) (simp add: ptrarray_pop_def)
next
  case (snoc x xs)
  show ?case
    by (subst convert_vevents.simps)
       (simp add: ptrarray_pop_def snoc.IH split: option.split)
qed

lemma locate_main_vevents_eq:
  "locate_main_vevents cs todo =
     todo @ filter (\<lambda>c. icalcomponent_get_first_property c RECURRENCEID_PROPERTY = None
                       \<and> icalcomponent_get_uid c \<noteq> None) cs"
  by (induction cs arbitrary: todo) (auto simp: ptrarray_append_def)

text \<open>
  C1. With several master VEVENTs in the tree, \<^verbatim>\<open>jmapical_tojmap\<close> returns the conversion
  of the one that comes last in component order, not of the first: the masters are
  collected in order and then popped from the end of the array, and \<^verbatim>\<open>jmapical_tojmap\<close>
  takes element 0 of the resulting list. Here the tree holds the masters with uid
  \<open>first\<close> and \<open>second\<close>, in this order.
\<close>

theorem jmapical_tojmap_two_masters:
  "jmapical_tojmap calendarevent_from_ical_uid two_masters
     = calendarevent_from_ical_uid (uid_vevent ''second'')
   \<and> jmapical_tojmap calendarevent_from_ical_uid two_masters
     \<noteq> calendarevent_from_ical_uid (uid_vevent ''first'')
   \<and> jmapical_tojmap_all calendarevent_from_ical_uid two_masters
     = [JObject [(''@type'', JString ''jsevent''), (''uid'', JString ''second'')],
        JObject [(''@type'', JString ''jsevent''), (''uid'', JString ''first'')]]"
  by (simp add: jmapical_tojmap_def jmapical_tojmap_all_def two_masters_def uid_vevent_def
        get_components_def locate_main_vevents_eq convert_vevents_eq
        icalcomponent_get_first_property_def icalcomponent_get_uid_def ptrarray_append_def
        calendarevent_from_ical_uid_def
        icalproperty_get_value_as_string_def)

lemma map_of_object_set: "map_of (object_set kvs k v) k' = (if k' = k then Some v else map_of kvs k')"
  by (induction kvs) auto

lemma object_set_nonempty: "object_set kvs k v \<noteq> []"
  by (cases kvs) (auto split: if_splits)

lemma rsvpto_from_ical_not_null: "rsvpto_from_ical prop \<noteq> JNull"
  by (cases "rsvp_uris (parameters prop) []")
     (simp_all add: rsvpto_from_ical_def Let_def object_set_nonempty)

lemma chain_table:
  "chain_attendee_by_uri P =
     [(''mailto:a@example.com'', att_A), (''mailto:b@example.com'', att_B),
      (''mailto:c@example.com'', att_C)]"
  by (simp add: chain_attendee_by_uri_def att_A_def att_B_def att_C_def attendee_def
        normalized_uri_def strchr_def lcase_def tolower_def hash_insert_def
        icalproperty_get_value_as_string_def get_icalxparam_value_def Let_def)

lemma chain_lookup:
  "hash_lookup (normalized_uri ''mailto:b@example.com'') (chain_attendee_by_uri P) = Some att_B"
  "hash_lookup (normalized_uri ''mailto:c@example.com'') (chain_attendee_by_uri P) = Some att_C"
  by (simp_all add: chain_table hash_lookup_def normalized_uri_def strchr_def lcase_def tolower_def)

lemma chain_parameters:
  "first_partstat (parameters att_A) = Some PARTSTAT_DELEGATED"
  "first_partstat (parameters att_B) = Some PARTSTAT_DELEGATED"
  "first_partstat (parameters att_C) = Some PARTSTAT_ACCEPTED"
  "first_delegatedto (parameters att_A) = Some (Some ''mailto:b@example.com'')"
  "first_delegatedto (parameters att_B) = Some (Some ''mailto:c@example.com'')"
  by (simp_all add: att_A_def att_B_def att_C_def attendee_def)

section \<open>Results: participants\<close>

text \<open>
  Converting A, every round of the loop reads the PARTSTAT of the current delegate but the
  DELEGATED-TO of A itself, so from the second round on it stays at B.
\<close>

lemma partstat_loop_A_step:
  "partstat_loop (chain_attendee_by_uri P) att_A att_B depth =
     (if depth < 64 then partstat_loop (chain_attendee_by_uri P) att_A att_B (Suc depth)
      else Some (Some ''none''))"
  by (subst partstat_loop.simps) (simp add: chain_lookup chain_parameters)

lemma partstat_loop_A:
  "depth \<le> 64 \<Longrightarrow> partstat_loop (chain_attendee_by_uri P) att_A att_B depth = Some (Some ''none'')"
proof (induction "64 - depth" arbitrary: depth)
  case 0
  then show ?case by (subst partstat_loop_A_step) simp
next
  case (Suc n)
  then have "depth < 64" and "n = 64 - Suc depth" and "Suc depth \<le> 64" by simp_all
  then show ?case using Suc.hyps(1) [of "Suc depth"] by (subst partstat_loop_A_step) simp
qed

text \<open>
  C2. In the chain A, B, C (A delegated to B, B delegated to C, C accepted) the block
  returns for A without a participationStatus: its loop gives up with \<open>none\<close> after 64
  rounds at B, because it follows the DELEGATED-TO of A in every round. B and C get
  \<open>accepted\<close>. So A does not inherit the final delegate's status.
\<close>

theorem delegation_chain_participationStatus:
  "participationStatus_from_ical (chain_attendee_by_uri P) att_A = Some None
   \<and> participationStatus_from_ical (chain_attendee_by_uri P) att_B = Some (Some ''accepted'')
   \<and> participationStatus_from_ical (chain_attendee_by_uri P) att_C = Some (Some ''accepted'')"
proof (intro conjI)
  show "participationStatus_from_ical (chain_attendee_by_uri P) att_A = Some None"
    unfolding participationStatus_from_ical_def
    by (subst partstat_loop.simps) (simp add: chain_lookup chain_parameters partstat_loop_A)
  show "participationStatus_from_ical (chain_attendee_by_uri P) att_B = Some (Some ''accepted'')"
    unfolding participationStatus_from_ical_def
    by (subst partstat_loop.simps, simp add: chain_lookup chain_parameters,
        subst partstat_loop.simps, simp add: chain_parameters)
  show "participationStatus_from_ical (chain_attendee_by_uri P) att_C = Some (Some ''accepted'')"
    unfolding participationStatus_from_ical_def
    by (subst partstat_loop.simps) (simp add: chain_parameters)
qed

text \<open>
  C3. For a participant whose only sendTo entry is \<open>other\<close>, the CALADDRESS is not that
  URI: the branch for \<open>other\<close> reads the member \<open>imip\<close>, which is absent, and hands
  \<^verbatim>\<open>NULL\<close> to \<^verbatim>\<open>xstrdup\<close>. The same happens inside \<^verbatim>\<open>participants_to_ical\<close> for an
  event with such a participant, whatever follows the table.
\<close>

theorem participant_caladdress_sendTo_other:
  "participant_caladdress
     (JObject [(''sendTo'', JObject [(''other'', JString ''https://example.com/rsvp'')])])
     = Inl Null_dereference
   \<and> participants_to_ical rest ctx cmp
       (Some (JObject
          [(''replyTo'', JObject [(''imip'', JString ''mailto:o@example.com'')]),
           (''participants'', JObject
              [(''p1'', JObject [(''sendTo'',
                  JObject [(''other'', JString ''https://example.com/rsvp'')])])])]))
     = Inl Null_dereference"
  by (simp add: participant_caladdress_def participants_to_ical_def xstrdup_def Let_def
        is_valid_jmapid_def)

lemma collect_attendees_fst_empty:
  "fst (collect_attendees P props (a, b)) = [] \<longleftrightarrow> a = [] \<and> props = []"
  by (induction props arbitrary: a b) (auto simp: Let_def hash_insert_def object_set_nonempty)

lemma collect_attendees_snd_dom:
  "map_of (snd (collect_attendees P props (a, b))) k \<noteq> None \<longleftrightarrow>
     map_of b k \<noteq> None
     \<or> k \<in> (\<lambda>p. normalized_uri (icalproperty_get_value_as_string p)) ` set props"
  by (induction props arbitrary: a b) (auto simp: Let_def hash_insert_def map_of_object_set)

lemma map_attendees_nonempty:
  "participants \<noteq> [] \<or> props \<noteq> [] \<Longrightarrow>
   \<forall>p \<in> set props. hash_lookup (normalized_uri (icalproperty_get_value_as_string p)) id_by_uri \<noteq> None \<Longrightarrow>
   map_attendees P attendee_by_uri id_by_uri orga props participants \<noteq> []"
  by (induction props arbitrary: participants) (auto simp: Let_def object_set_nonempty)

lemma participants_from_ical_null:
  "participants_from_ical P cmp = JNull \<longleftrightarrow> get_properties cmp ATTENDEE_PROPERTY = []"
proof (cases "get_properties cmp ATTENDEE_PROPERTY = []")
  case True
  then show ?thesis by (simp add: participants_from_ical_def hash_numrecords_def)
next
  case False
  obtain a b where ab: "collect_attendees P (get_properties cmp ATTENDEE_PROPERTY) ([], []) = (a, b)"
    by (cases "collect_attendees P (get_properties cmp ATTENDEE_PROPERTY) ([], [])")
  from False ab have a: "a \<noteq> []"
    using collect_attendees_fst_empty [of P "get_properties cmp ATTENDEE_PROPERTY" "[]" "[]"] by simp
  have "\<forall>p \<in> set (get_properties cmp ATTENDEE_PROPERTY).
          hash_lookup (normalized_uri (icalproperty_get_value_as_string p)) b \<noteq> None"
    using collect_attendees_snd_dom [of P "get_properties cmp ATTENDEE_PROPERTY" "[]" "[]"] ab
    by (auto simp: hash_lookup_def)
  then have "map_attendees P a b orga (get_properties cmp ATTENDEE_PROPERTY) [] \<noteq> []" for orga
    using False by (intro map_attendees_nonempty) auto
  with a False show ?thesis
    by (simp add: participants_from_ical_def ab hash_numrecords_def Let_def object_set_nonempty
          split: option.split)
qed

lemma get_properties_remove_icalprop:
  "get_properties (remove_icalprop cmp k) k' = (if k' = k then [] else get_properties cmp k')"
  by (auto simp: get_properties_def remove_icalprop_def filter_empty_conv intro: filter_cong)

lemma first_property_iff:
  "icalcomponent_get_first_property cmp k = None \<longleftrightarrow> get_properties cmp k = []"
  by (auto simp: icalcomponent_get_first_property_def get_properties_def find_None_iff
        filter_empty_conv)

lemma collect_attendees_fst_dom:
  "map_of (fst (collect_attendees P props (a, b))) k \<noteq> None \<longleftrightarrow>
     map_of a k \<noteq> None
     \<or> k \<in> (\<lambda>p. normalized_uri (icalproperty_get_value_as_string p)) ` set props"
  by (induction props arbitrary: a b) (auto simp: Let_def hash_insert_def map_of_object_set)

lemma participant_from_icalorganizer_roles:
  "json_object_get (Some (participant_from_icalorganizer P orga)) ''roles''
     = Some (JObject [(''owner'', JTrue)])"
  by (simp add: participant_from_icalorganizer_def Let_def map_of_object_set split: option.split)

lemma participants_from_ical_organizer:
  assumes att: "get_properties cmp ATTENDEE_PROPERTY \<noteq> []"
    and orga: "icalcomponent_get_first_property cmp ORGANIZER_PROPERTY = Some orga"
    and new: "normalized_uri (icalproperty_get_value_as_string orga)
                \<notin> (\<lambda>p. normalized_uri (icalproperty_get_value_as_string p))
                    ` set (get_properties cmp ATTENDEE_PROPERTY)"
  shows "\<exists>pid. json_object_get (Some (participants_from_ical P cmp)) pid
                 = Some (participant_from_icalorganizer P orga)"
proof -
  obtain a b where ab: "collect_attendees P (get_properties cmp ATTENDEE_PROPERTY) ([], []) = (a, b)"
    by (cases "collect_attendees P (get_properties cmp ATTENDEE_PROPERTY) ([], [])")
  from att ab have a: "a \<noteq> []"
    using collect_attendees_fst_empty [of P "get_properties cmp ATTENDEE_PROPERTY" "[]" "[]"] by simp
  have "hash_lookup (normalized_uri (icalproperty_get_value_as_string orga)) a = None"
    using collect_attendees_fst_dom [of P "get_properties cmp ATTENDEE_PROPERTY" "[]" "[]"
            "normalized_uri (icalproperty_get_value_as_string orga)"] ab new
    by (simp add: hash_lookup_def)
  with a show ?thesis
    by (auto simp: participants_from_ical_def ab hash_numrecords_def Let_def orga
          object_set_nonempty map_of_object_set)
qed

text \<open>
  C5, as amended. ICAL to JSON, for a master event with both properties wanted: replyTo is
  non-null exactly when the VEVENT has an ORGANIZER; participants is non-null when it has
  an ATTENDEE and null when it has neither ORGANIZER nor ATTENDEE; when there is an
  ATTENDEE, an ORGANIZER whose URI is not among the ATTENDEEs is a participant with roles
  \<open>{owner: true}\<close>. JSON to ICAL, at the top level: an event \<open>e\<close> in which exactly one of
  replyTo and participants is non-null gets the invalid entries \<open>replyTo\<close> and
  \<open>participants\<close>, and neither ORGANIZER nor ATTENDEE.
\<close>

theorem replyTo_participants_copresence:
  assumes want: "wantprop ''replyTo''" "wantprop ''participants''"
    and fresh: "json_object_get (Some (JObject event)) ''replyTo'' = None"
    and ev: "ev = Some (JObject (replyTo_participants_from_ical P wantprop False cmp event))"
    and top: "propstr ctx = []"
    and mismatch: "JNOTNULL (json_object_get e ''replyTo'') \<noteq> JNOTNULL (json_object_get e ''participants'')"
  shows "(JNOTNULL (json_object_get ev ''replyTo'')
            \<longleftrightarrow> get_properties cmp ORGANIZER_PROPERTY \<noteq> [])
       \<and> (get_properties cmp ATTENDEE_PROPERTY \<noteq> []
            \<longrightarrow> JNOTNULL (json_object_get ev ''participants''))
       \<and> (get_properties cmp ORGANIZER_PROPERTY = [] \<and> get_properties cmp ATTENDEE_PROPERTY = []
            \<longrightarrow> \<not> JNOTNULL (json_object_get ev ''participants''))
       \<and> (\<forall>orga. get_properties cmp ATTENDEE_PROPERTY \<noteq> []
               \<and> icalcomponent_get_first_property cmp ORGANIZER_PROPERTY = Some orga
               \<and> normalized_uri (icalproperty_get_value_as_string orga)
                   \<notin> (\<lambda>p. normalized_uri (icalproperty_get_value_as_string p))
                       ` set (get_properties cmp ATTENDEE_PROPERTY) \<longrightarrow>
               (\<exists>pid jorga. json_object_get (json_object_get ev ''participants'') pid = Some jorga
                  \<and> json_object_get (Some jorga) ''roles'' = Some (JObject [(''owner'', JTrue)])))
       \<and> (\<exists>ctx' cmp'. participants_to_ical rest ctx vevent e = Inr (ctx', cmp')
               \<and> ''replyTo'' \<in> set (invalid ctx') \<and> ''participants'' \<in> set (invalid ctx')
               \<and> get_properties cmp' ORGANIZER_PROPERTY = []
               \<and> get_properties cmp' ATTENDEE_PROPERTY = [])"
proof (intro conjI)
  have parts: "json_object_get ev ''participants'' = Some (participants_from_ical P cmp)"
    using want ev by (simp add: replyTo_participants_from_ical_def map_of_object_set Let_def)
  show "JNOTNULL (json_object_get ev ''replyTo'') \<longleftrightarrow> get_properties cmp ORGANIZER_PROPERTY \<noteq> []"
  proof (cases "icalcomponent_get_first_property cmp ORGANIZER_PROPERTY")
    case None
    with want fresh ev show ?thesis
      by (simp add: replyTo_participants_from_ical_def map_of_object_set first_property_iff)
  next
    case (Some oprop)
    then have "get_properties cmp ORGANIZER_PROPERTY \<noteq> []"
      using first_property_iff [of cmp ORGANIZER_PROPERTY] by simp
    moreover have "JNOTNULL (Some (rsvpto_from_ical oprop))"
      using rsvpto_from_ical_not_null [of oprop] by (cases "rsvpto_from_ical oprop") simp_all
    ultimately show ?thesis using want ev Some
      by (simp add: replyTo_participants_from_ical_def map_of_object_set)
  qed
  have null: "JNOTNULL (json_object_get ev ''participants'')
                \<longleftrightarrow> get_properties cmp ATTENDEE_PROPERTY \<noteq> []"
    using participants_from_ical_null [of P cmp]
    by (cases "participants_from_ical P cmp") (simp_all add: parts)
  from null show "get_properties cmp ATTENDEE_PROPERTY \<noteq> []
            \<longrightarrow> JNOTNULL (json_object_get ev ''participants'')" by simp
  from null show "get_properties cmp ORGANIZER_PROPERTY = []
            \<and> get_properties cmp ATTENDEE_PROPERTY = []
            \<longrightarrow> \<not> JNOTNULL (json_object_get ev ''participants'')" by simp
  show "\<forall>orga. get_properties cmp ATTENDEE_PROPERTY \<noteq> []
               \<and> icalcomponent_get_first_property cmp ORGANIZER_PROPERTY = Some orga
               \<and> normalized_uri (icalproperty_get_value_as_string orga)
                   \<notin> (\<lambda>p. normalized_uri (icalproperty_get_value_as_string p))
                       ` set (get_properties cmp ATTENDEE_PROPERTY) \<longrightarrow>
               (\<exists>pid jorga. json_object_get (json_object_get ev ''participants'') pid = Some jorga
                  \<and> json_object_get (Some jorga) ''roles'' = Some (JObject [(''owner'', JTrue)]))"
    using participants_from_ical_organizer [of cmp _ P] participant_from_icalorganizer_roles [of P]
    unfolding parts by blast
  show "\<exists>ctx' cmp'. participants_to_ical rest ctx vevent e = Inr (ctx', cmp')
               \<and> ''replyTo'' \<in> set (invalid ctx') \<and> ''participants'' \<in> set (invalid ctx')
               \<and> get_properties cmp' ORGANIZER_PROPERTY = []
               \<and> get_properties cmp' ATTENDEE_PROPERTY = []"
    using top mismatch
    by (auto simp: participants_to_ical_def Let_def invalidprop_def encodeprop_def beginprop_def
          encode_segment_def json_pointer_needsencode_def invalid_set_def
          get_properties_remove_icalprop)
qed

text \<open>
  A VEVENT with an ORGANIZER and an ATTENDEE gives both members, with the ORGANIZER among
  the participants; a VEVENT with neither gives none; and an event with a replyTo only is
  rejected.
\<close>

theorem replyTo_participants_copresence_witness:
  "JNOTNULL (json_object_get
      (Some (JObject (replyTo_participants_from_ical sample_participant_ops wantprop_all False
                        organizer_and_attendee []))) ''replyTo'')
   \<and> JNOTNULL (json_object_get
      (Some (JObject (replyTo_participants_from_ical sample_participant_ops wantprop_all False
                        organizer_and_attendee []))) ''participants'')
   \<and> (\<exists>pid jorga. json_object_get (json_object_get
      (Some (JObject (replyTo_participants_from_ical sample_participant_ops wantprop_all False
                        organizer_and_attendee []))) ''participants'') pid = Some jorga
          \<and> json_object_get (Some jorga) ''roles'' = Some (JObject [(''owner'', JTrue)]))
   \<and> (\<exists>ctx' cmp'. participants_to_ical skip_organizer_and_attendees (context_new None)
                      organizer_and_attendee replyTo_only_event = Inr (ctx', cmp')
          \<and> ''replyTo'' \<in> set (invalid ctx') \<and> ''participants'' \<in> set (invalid ctx')
          \<and> get_properties cmp' ORGANIZER_PROPERTY = []
          \<and> get_properties cmp' ATTENDEE_PROPERTY = [])
   \<and> \<not> JNOTNULL (json_object_get
      (Some (JObject (replyTo_participants_from_ical sample_participant_ops wantprop_all False
                        (Icalcomponent VEVENT_COMPONENT [] []) []))) ''replyTo'')
   \<and> \<not> JNOTNULL (json_object_get
      (Some (JObject (replyTo_participants_from_ical sample_participant_ops wantprop_all False
                        (Icalcomponent VEVENT_COMPONENT [] []) []))) ''participants'')"
proof -
  have want: "wantprop_all ''replyTo''" "wantprop_all ''participants''"
    by (simp_all add: wantprop_all_def)
  have fresh: "json_object_get (Some (JObject [])) ''replyTo'' = None" by simp
  have top: "propstr (context_new None) = []" by (simp add: context_new_def)
  have mismatch: "JNOTNULL (json_object_get replyTo_only_event ''replyTo'')
                    \<noteq> JNOTNULL (json_object_get replyTo_only_event ''participants'')"
    by (simp add: replyTo_only_event_def)
  have orga: "get_properties organizer_and_attendee ORGANIZER_PROPERTY \<noteq> []"
    and att: "get_properties organizer_and_attendee ATTENDEE_PROPERTY \<noteq> []"
    and first: "icalcomponent_get_first_property organizer_and_attendee ORGANIZER_PROPERTY
         = Some \<lparr>isa = ORGANIZER_PROPERTY, prop_value = TEXT_VALUE ''mailto:o@example.com'',
                 parameters = []\<rparr>"
    and new: "normalized_uri (icalproperty_get_value_as_string
                 \<lparr>isa = ORGANIZER_PROPERTY, prop_value = TEXT_VALUE ''mailto:o@example.com'',
                   parameters = []\<rparr>)
              \<notin> (\<lambda>p. normalized_uri (icalproperty_get_value_as_string p))
                   ` set (get_properties organizer_and_attendee ATTENDEE_PROPERTY)"
    by (simp_all add: organizer_and_attendee_def get_properties_def attendee_def
          icalcomponent_get_first_property_def normalized_uri_def strchr_def lcase_def
          tolower_def icalproperty_get_value_as_string_def)
  have none: "get_properties (Icalcomponent VEVENT_COMPONENT [] []) ORGANIZER_PROPERTY = []"
             "get_properties (Icalcomponent VEVENT_COMPONENT [] []) ATTENDEE_PROPERTY = []"
    by (simp_all add: get_properties_def)
  note both = replyTo_participants_copresence [OF want fresh refl top mismatch,
         of sample_participant_ops organizer_and_attendee skip_organizer_and_attendees
            organizer_and_attendee]
  note neither = replyTo_participants_copresence [OF want fresh refl top mismatch,
         of sample_participant_ops "Icalcomponent VEVENT_COMPONENT [] []"
            skip_organizer_and_attendees organizer_and_attendee]
  from both neither show ?thesis using orga att first new none by blast
qed

text \<open>
  C5 as stated fails for a VEVENT with an ATTENDEE and no ORGANIZER: participants is an
  object and there is no replyTo, since a replyTo is only made from an ORGANIZER.
\<close>

theorem attendee_without_organizer_counterexample:
  "\<not> JNOTNULL (json_object_get
      (Some (JObject (replyTo_participants_from_ical sample_participant_ops wantprop_all False
                        attendee_only []))) ''replyTo'')
   \<and> JNOTNULL (json_object_get
      (Some (JObject (replyTo_participants_from_ical sample_participant_ops wantprop_all False
                        attendee_only []))) ''participants'')"
  by code_simp

section \<open>Results: recurrence rules and events, JSON to ICAL\<close>

text \<open>
  C6. The third element of bySetPosition, 60, is out of range, and the path recorded for
  it is \<open>recurrenceRule/bySetPos/2\<close>: the block passes the field name \<open>bySetPos\<close>, not the
  JSCalendar name \<open>bySetPosition\<close> under which it read the array. The block for byDate,
  like the other five, records its elements under the JSCalendar name.
\<close>

theorem bySetPosition_invalid_path:
  "invalid (fst (bySetPosition_to_ical (beginprop (context_new None) ''recurrenceRule'')
                   setpos_rule ''FREQ=YEARLY''))
     = [''recurrenceRule/bySetPos/2'']
   \<and> ''recurrenceRule/bySetPosition/2''
       \<notin> set (invalid (fst (bySetPosition_to_ical (beginprop (context_new None) ''recurrenceRule'')
                               setpos_rule ''FREQ=YEARLY'')))
   \<and> invalid (fst (byDate_to_ical (beginprop (context_new None) ''recurrenceRule'')
                      (Some (JObject [(''byDate'', JArray [JInteger 0, JInteger 2, JInteger 32])]))
                      ''FREQ=YEARLY''))
     = [''recurrenceRule/byDate/0'', ''recurrenceRule/byDate/2'']"
  by (simp add: bySetPosition_to_ical_def byDate_to_ical_def byX_block_def setpos_rule_def
        readprop_def
        recurrence_byX_to_ical_def int_of_json_int_def int_to_ical_def string_of_int_def
        string_of_nat.simps beginprop_def beginprop_idx_def endprop_def invalidprop_def
        encodeprop_def encode_segment_def json_pointer_needsencode_def invalid_set_def
        context_new_def Let_def)

text \<open>
  C8. A priority of 10 or of -1 is written as a PRIORITY property and nothing is recorded
  as invalid: the test \<^verbatim>\<open>value >= 0 || value <= 9\<close> holds for every integer, so the
  branch that records \<open>priority\<close> is never taken, for any event.
\<close>

theorem priority_out_of_range_is_emitted:
  "priority_to_ical ctx cmp (Some (JObject [(''priority'', JInteger 10)]))
     = (ctx, icalcomponent_add_property cmp
               \<lparr>isa = PRIORITY_PROPERTY, prop_value = INTEGER_VALUE 10, parameters = []\<rparr>)
   \<and> priority_to_ical ctx cmp (Some (JObject [(''priority'', JInteger (- 1))]))
     = (ctx, icalcomponent_add_property cmp
               \<lparr>isa = PRIORITY_PROPERTY, prop_value = INTEGER_VALUE (- 1), parameters = []\<rparr>)
   \<and> fst (priority_to_ical ctx cmp event) = ctx"
proof -
  have "json_integer_value j \<ge> 0 \<or> json_integer_value j \<le> 9" for j by linarith
  then show ?thesis
    by (simp add: priority_to_ical_def int_of_json_int_def Let_def)
qed

lemma get_properties_add_property:
  "get_properties (icalcomponent_add_property cmp p) k
     = (if isa p = k then get_properties cmp k @ [p] else get_properties cmp k)"
  by (simp add: get_properties_def icalcomponent_add_property_def)

lemma filter_set_first_value:
  "filter (\<lambda>p. isa p = k) (set_first_value kind v ps)
     = (if k = kind then set_first_value kind v (filter (\<lambda>p. isa p = kind) ps)
        else filter (\<lambda>p. isa p = k) ps)"
  by (induction ps) auto

lemma get_properties_set_value:
  "get_properties (icalcomponent_set_value cmp kind v) k
     = (if k = kind then set_first_value kind v (get_properties cmp kind)
        else get_properties cmp k)"
  by (simp add: get_properties_def icalcomponent_set_value_def filter_set_first_value)

lemma get_properties_dtprop_to_ical:
  "kind \<noteq> DTEND_PROPERTY \<Longrightarrow> kind \<noteq> DURATION_PROPERTY \<Longrightarrow>
   get_properties (dtprop_to_ical cmp dt tz True kind) k
     = (if k = kind
        then [\<lparr>isa = kind,
               prop_value = (if is_date dt then DATE_VALUE dt else DATETIME_VALUE dt),
               parameters = (case tz of None \<Rightarrow> []
                             | Some tzid \<Rightarrow> if \<not> is_utc dt then [TZID_PARAMETER tzid] else [])\<rparr>]
        else get_properties cmp k)"
  by (simp add: dtprop_to_ical_def Let_def get_properties_add_property
        get_properties_remove_icalprop)

lemma get_properties_created_updated_sequence:
  "get_properties (created_updated_sequence_to_ical cmp (utc_time_of_clock clock)) k
     = (if k = CREATED_PROPERTY
        then [\<lparr>isa = CREATED_PROPERTY, prop_value = DATETIME_VALUE (utc_time_of_clock clock),
               parameters = []\<rparr>]
        else if k = DTSTAMP_PROPERTY
        then [\<lparr>isa = DTSTAMP_PROPERTY, prop_value = DATETIME_VALUE (utc_time_of_clock clock),
               parameters = []\<rparr>]
        else if k = SEQUENCE_PROPERTY
        then set_first_value SEQUENCE_PROPERTY (INTEGER_VALUE 0) (get_properties cmp SEQUENCE_PROPERTY)
        else get_properties cmp k)"
  by (simp add: created_updated_sequence_to_ical_def icalcomponent_set_sequence_def
        get_properties_set_value get_properties_dtprop_to_ical utc_time_of_clock_def
        utc_timezone_def)

lemma get_properties_priority_to_ical:
  "k \<noteq> PRIORITY_PROPERTY \<Longrightarrow>
   get_properties (snd (priority_to_ical ctx cmp event)) k = get_properties cmp k"
  by (simp add: priority_to_ical_def Let_def get_properties_add_property)

lemma get_properties_new_vcalendar:
  "get_properties (master (new_vcalendar clock0)) SEQUENCE_PROPERTY
     = [\<lparr>isa = SEQUENCE_PROPERTY, prop_value = INTEGER_VALUE 0, parameters = []\<rparr>]"
  by (simp add: new_vcalendar_def Let_def get_properties_add_property get_properties_set_value
        icalcomponent_set_sequence_def icalcomponent_set_dtstamp_def)
     (simp add: get_properties_def)

lemma stamps_event_head_to_ical:
  "k \<noteq> UID_PROPERTY \<Longrightarrow>
   get_properties (master (snd (event_head_to_ical ctx tree event))) k = get_properties (master tree) k"
  by (simp add: event_head_to_ical_def Let_def split_def icalcomponent_set_uid_def
        get_properties_set_value split: option.split)

lemma stamps_title_to_ical:
  "k \<noteq> SUMMARY_PROPERTY \<Longrightarrow>
   get_properties (master (snd (title_to_ical ctx tree event))) k = get_properties (master tree) k"
  by (simp add: title_to_ical_def Let_def split_def icalcomponent_set_summary_def
        get_properties_set_value split: option.split)

lemma snd_organizer_attendee_check: "snd (organizer_attendee_check ctx tree) = tree"
  by (simp add: organizer_attendee_check_def)

lemma calendarevent_to_ical_stamps:
  assumes "keeps_stamps (startend_relatedto_prodid E)"
    and "keeps_stamps (description_to_overrides E)"
  shows "get_properties (master (snd (calendarevent_to_ical E clock ctx tree event))) CREATED_PROPERTY
           = [\<lparr>isa = CREATED_PROPERTY, prop_value = DATETIME_VALUE (utc_time_of_clock clock),
                parameters = []\<rparr>]
       \<and> get_properties (master (snd (calendarevent_to_ical E clock ctx tree event))) DTSTAMP_PROPERTY
           = [\<lparr>isa = DTSTAMP_PROPERTY, prop_value = DATETIME_VALUE (utc_time_of_clock clock),
                parameters = []\<rparr>]
       \<and> get_properties (master (snd (calendarevent_to_ical E clock ctx tree event))) SEQUENCE_PROPERTY
           = set_first_value SEQUENCE_PROPERTY (INTEGER_VALUE 0)
               (get_properties (master tree) SEQUENCE_PROPERTY)"
proof -
  have s1: "get_properties (master (snd (startend_relatedto_prodid E c t e))) CREATED_PROPERTY
              = get_properties (master t) CREATED_PROPERTY"
           "get_properties (master (snd (startend_relatedto_prodid E c t e))) DTSTAMP_PROPERTY
              = get_properties (master t) DTSTAMP_PROPERTY"
           "get_properties (master (snd (startend_relatedto_prodid E c t e))) SEQUENCE_PROPERTY
              = get_properties (master t) SEQUENCE_PROPERTY" for c t e
    using assms(1) by (simp_all add: keeps_stamps_def)
  have s2: "get_properties (master (snd (description_to_overrides E c t e))) CREATED_PROPERTY
              = get_properties (master t) CREATED_PROPERTY"
           "get_properties (master (snd (description_to_overrides E c t e))) DTSTAMP_PROPERTY
              = get_properties (master t) DTSTAMP_PROPERTY"
           "get_properties (master (snd (description_to_overrides E c t e))) SEQUENCE_PROPERTY
              = get_properties (master t) SEQUENCE_PROPERTY" for c t e
    using assms(2) by (simp_all add: keeps_stamps_def)
  show ?thesis
    by (simp add: calendarevent_to_ical_def Let_def split_def snd_organizer_attendee_check
          s1 s2 stamps_event_head_to_ical stamps_title_to_ical
          get_properties_created_updated_sequence get_properties_priority_to_ical)
qed

lemma jmapical_toical_Some:
  assumes "jmapical_toical E clock0 clock obj e = (Some tree, e')"
  shows "json_string_value (json_object_get obj ''uid'') \<noteq> None
       \<and> tree = icalcomponent_add_required_timezones E
            (snd (calendarevent_to_ical E clock
               ((context_new e)\<lparr>ctx_uid := json_string_value (json_object_get obj ''uid'')\<rparr>)
               (new_vcalendar clock0) obj))
       \<and> (e = None \<or> invalid (fst (calendarevent_to_ical E clock
               ((context_new e)\<lparr>ctx_uid := json_string_value (json_object_get obj ''uid'')\<rparr>)
               (new_vcalendar clock0) obj)) = [])
       \<and> e' = map_option (\<lambda>r. err (fst (calendarevent_to_ical E clock
               ((context_new e)\<lparr>ctx_uid := json_string_value (json_object_get obj ''uid'')\<rparr>)
               (new_vcalendar clock0) obj))) e
       \<and> err_code (err (fst (calendarevent_to_ical E clock
               ((context_new e)\<lparr>ctx_uid := json_string_value (json_object_get obj ''uid'')\<rparr>)
               (new_vcalendar clock0) obj))) = JMAPICAL_SUCCESS"
  using assms
  by (auto simp: jmapical_toical_def Let_def split_def have_invalid_props_def
        split: if_splits)

text \<open>
  C9. Whenever \<^verbatim>\<open>jmapical_toical\<close> returns a tree, its master VEVENT has exactly one
  CREATED and one DTSTAMP, both the UTC time read in \<^verbatim>\<open>calendarevent_to_ical\<close>, and one
  SEQUENCE, which is 0, whatever the event says about created, updated and sequence. The
  block that writes them takes no input from the event; the stretches of the function
  that are parameters are assumed to keep the three properties, as the source's do.
\<close>

theorem toical_stamps_current_time:
  assumes "keeps_stamps (startend_relatedto_prodid E)"
    and "keeps_stamps (description_to_overrides E)"
    and "\<forall>t. master (icalcomponent_add_required_timezones E t) = master t"
    and "jmapical_toical E clock0 clock obj e = (Some tree, e')"
  shows "get_properties (master tree) CREATED_PROPERTY
           = [\<lparr>isa = CREATED_PROPERTY, prop_value = DATETIME_VALUE (utc_time_of_clock clock),
                parameters = []\<rparr>]
       \<and> get_properties (master tree) DTSTAMP_PROPERTY
           = [\<lparr>isa = DTSTAMP_PROPERTY, prop_value = DATETIME_VALUE (utc_time_of_clock clock),
                parameters = []\<rparr>]
       \<and> get_properties (master tree) SEQUENCE_PROPERTY
           = [\<lparr>isa = SEQUENCE_PROPERTY, prop_value = INTEGER_VALUE 0, parameters = []\<rparr>]"
  using jmapical_toical_Some [OF assms(4)] assms(3)
    calendarevent_to_ical_stamps [OF assms(1) assms(2)]
  by (simp add: get_properties_new_vcalendar)

text \<open>
  C7, as amended. Without a uid there is no tree, and the caller's error record, when
  there is one, gets the code UID. With an error record: when the conversion has
  recorded invalid properties there is no tree and the record gets the code Props and the
  list of their paths in the order in which they were first recorded; and whenever a tree
  is returned, the code is Success and no invalid property was recorded. Without an error
  record, and with a uid, the result does not depend on the invalid properties: the tree
  is returned unless the conversion has set an error code in the context's own record.
\<close>

theorem jmapical_toical_error_results:
  "(json_string_value (json_object_get obj ''uid'') = None \<longrightarrow>
      jmapical_toical E clock0 clock obj e
        = (None, map_option (\<lambda>r. r\<lparr>err_code := JMAPICAL_ERROR_UID\<rparr>) e))
   \<and> (json_string_value (json_object_get obj ''uid'') \<noteq> None
      \<and> invalid (fst (calendarevent_to_ical E clock
           ((context_new (Some r))\<lparr>ctx_uid := json_string_value (json_object_get obj ''uid'')\<rparr>)
           (new_vcalendar clock0) obj)) \<noteq> [] \<longrightarrow>
      jmapical_toical E clock0 clock obj (Some r)
        = (None, Some \<lparr>err_code = JMAPICAL_ERROR_PROPS,
                        err_props = Some (JArray (map JString
                          (invalid (fst (calendarevent_to_ical E clock
                             ((context_new (Some r))\<lparr>ctx_uid :=
                                 json_string_value (json_object_get obj ''uid'')\<rparr>)
                             (new_vcalendar clock0) obj)))))\<rparr>))
   \<and> (jmapical_toical E clock0 clock obj (Some r) = (Some tree, r') \<longrightarrow>
        (\<exists>r''. r' = Some r'' \<and> err_code r'' = JMAPICAL_SUCCESS)
        \<and> invalid (fst (calendarevent_to_ical E clock
             ((context_new (Some r))\<lparr>ctx_uid := json_string_value (json_object_get obj ''uid'')\<rparr>)
             (new_vcalendar clock0) obj)) = [])
   \<and> (json_string_value (json_object_get obj ''uid'') \<noteq> None \<longrightarrow>
      jmapical_toical E clock0 clock obj None
        = (if err_code (err (fst (calendarevent_to_ical E clock
                ((context_new None)\<lparr>ctx_uid := json_string_value (json_object_get obj ''uid'')\<rparr>)
                (new_vcalendar clock0) obj))) \<noteq> JMAPICAL_SUCCESS
           then None
           else Some (icalcomponent_add_required_timezones E
                  (snd (calendarevent_to_ical E clock
                     ((context_new None)\<lparr>ctx_uid :=
                         json_string_value (json_object_get obj ''uid'')\<rparr>)
                     (new_vcalendar clock0) obj))),
           None))"
proof (intro conjI impI)
  assume "json_string_value (json_object_get obj ''uid'') = None"
  then show "jmapical_toical E clock0 clock obj e
        = (None, map_option (\<lambda>r. r\<lparr>err_code := JMAPICAL_ERROR_UID\<rparr>) e)"
    by (simp add: jmapical_toical_def Let_def)
next
  assume "json_string_value (json_object_get obj ''uid'') \<noteq> None
      \<and> invalid (fst (calendarevent_to_ical E clock
           ((context_new (Some r))\<lparr>ctx_uid := json_string_value (json_object_get obj ''uid'')\<rparr>)
           (new_vcalendar clock0) obj)) \<noteq> []"
  then show "jmapical_toical E clock0 clock obj (Some r)
        = (None, Some \<lparr>err_code = JMAPICAL_ERROR_PROPS,
                        err_props = Some (JArray (map JString
                          (invalid (fst (calendarevent_to_ical E clock
                             ((context_new (Some r))\<lparr>ctx_uid :=
                                 json_string_value (json_object_get obj ''uid'')\<rparr>)
                             (new_vcalendar clock0) obj)))))\<rparr>)"
    by (auto simp: jmapical_toical_def Let_def split_def have_invalid_props_def
          get_invalid_props_def)
next
  assume a: "jmapical_toical E clock0 clock obj (Some r) = (Some tree, r')"
  from jmapical_toical_Some [OF a]
  show "\<exists>r''. r' = Some r'' \<and> err_code r'' = JMAPICAL_SUCCESS" by simp
  from jmapical_toical_Some [OF a]
  show "invalid (fst (calendarevent_to_ical E clock
             ((context_new (Some r))\<lparr>ctx_uid := json_string_value (json_object_get obj ''uid'')\<rparr>)
             (new_vcalendar clock0) obj)) = []" by simp
next
  assume "json_string_value (json_object_get obj ''uid'') \<noteq> None"
  then show "jmapical_toical E clock0 clock obj None
        = (if err_code (err (fst (calendarevent_to_ical E clock
                ((context_new None)\<lparr>ctx_uid := json_string_value (json_object_get obj ''uid'')\<rparr>)
                (new_vcalendar clock0) obj))) \<noteq> JMAPICAL_SUCCESS
           then None
           else Some (icalcomponent_add_required_timezones E
                  (snd (calendarevent_to_ical E clock
                     ((context_new None)\<lparr>ctx_uid :=
                         json_string_value (json_object_get obj ''uid'')\<rparr>)
                     (new_vcalendar clock0) obj))),
           None)"
    by (auto simp: jmapical_toical_def Let_def split_def)
qed

lemma skip_keeps_stamps:
  "keeps_stamps (startend_relatedto_prodid skip_toical_ops)"
  "keeps_stamps (description_to_overrides skip_toical_ops)"
  "\<forall>t. master (icalcomponent_add_required_timezones skip_toical_ops t) = master t"
  by (simp_all add: keeps_stamps_def skip_toical_ops_def)

lemma stamped_event_converts:
  "fst (jmapical_toical skip_toical_ops earlier_clock sample_clock stamped_event (Some fresh_err))
     \<noteq> None"
  by code_simp

text \<open>
  An event that carries created, updated and sequence is converted with the clock's time
  and sequence 0.
\<close>

theorem toical_stamps_current_time_witness:
  "\<exists>tree e'. jmapical_toical skip_toical_ops earlier_clock sample_clock stamped_event
                 (Some fresh_err) = (Some tree, e')
     \<and> get_properties (master tree) CREATED_PROPERTY
           = [\<lparr>isa = CREATED_PROPERTY, prop_value = DATETIME_VALUE (utc_time_of_clock sample_clock),
                parameters = []\<rparr>]
     \<and> get_properties (master tree) DTSTAMP_PROPERTY
           = [\<lparr>isa = DTSTAMP_PROPERTY, prop_value = DATETIME_VALUE (utc_time_of_clock sample_clock),
                parameters = []\<rparr>]
     \<and> get_properties (master tree) SEQUENCE_PROPERTY
           = [\<lparr>isa = SEQUENCE_PROPERTY, prop_value = INTEGER_VALUE 0, parameters = []\<rparr>]"
proof -
  obtain tree e' where r:
    "jmapical_toical skip_toical_ops earlier_clock sample_clock stamped_event (Some fresh_err)
       = (Some tree, e')"
    using stamped_event_converts
    by (cases "jmapical_toical skip_toical_ops earlier_clock sample_clock stamped_event
                 (Some fresh_err)") auto
  from toical_stamps_current_time [OF skip_keeps_stamps r] r show ?thesis by blast
qed

lemma bad_type_event_invalid:
  "invalid (fst (calendarevent_to_ical skip_toical_ops sample_clock
           ((context_new e)\<lparr>ctx_uid := Some ''u1''\<rparr>)
           (new_vcalendar earlier_clock) bad_type_event)) = [''excluded'', ''@type'']"
  "err_code (err (fst (calendarevent_to_ical skip_toical_ops sample_clock
           ((context_new None)\<lparr>ctx_uid := Some ''u1''\<rparr>)
           (new_vcalendar earlier_clock) bad_type_event))) = JMAPICAL_SUCCESS"
  by (simp_all add: calendarevent_to_ical_def event_head_to_ical_def
        title_to_ical_def organizer_attendee_check_def priority_to_ical_def
        skip_toical_ops_def bad_type_event_def context_new_def readprop_def
        have_invalid_props_def invalidprop_def encodeprop_def beginprop_def
        encode_segment_def json_pointer_needsencode_def invalid_set_def
        Let_def split_def)

lemma bad_type_event_uid:
  "json_string_value (json_object_get bad_type_event ''uid'') = Some ''u1''"
  by (simp add: bad_type_event_def)

text \<open>
  C7 as stated fails in two ways, both at an event whose \<open>excluded\<close> and \<open>@type\<close>
  members are invalid. Without an error record the tree is returned in spite of the
  invalid properties. With one, the paths come in the order in which they were recorded,
  \<open>excluded\<close> before \<open>@type\<close>, which is not sorted.
\<close>

theorem jmapical_toical_counterexample:
  "fst (jmapical_toical skip_toical_ops earlier_clock sample_clock bad_type_event None) \<noteq> None
   \<and> jmapical_toical skip_toical_ops earlier_clock sample_clock bad_type_event (Some fresh_err)
       = (None, Some \<lparr>err_code = JMAPICAL_ERROR_PROPS,
                       err_props = Some (JArray [JString ''excluded'', JString ''@type''])\<rparr>)
   \<and> \<not> sorted [''excluded'', ''@type'']"
  by (simp add: jmapical_toical_def Let_def split_def bad_type_event_uid bad_type_event_invalid
        have_invalid_props_def get_invalid_props_def)

text \<open>
  The cases of the amended C7, at an event without uid and at the two samples; the event
  with invalid properties is converted both with and without an error record.
\<close>

theorem jmapical_toical_error_results_witness:
  "jmapical_toical skip_toical_ops earlier_clock sample_clock (Some (JObject [])) (Some fresh_err)
     = (None, Some \<lparr>err_code = JMAPICAL_ERROR_UID, err_props = None\<rparr>)
   \<and> jmapical_toical skip_toical_ops earlier_clock sample_clock bad_type_event (Some fresh_err)
     = (None, Some \<lparr>err_code = JMAPICAL_ERROR_PROPS,
                     err_props = Some (JArray [JString ''excluded'', JString ''@type''])\<rparr>)
   \<and> (\<exists>tree r'. jmapical_toical skip_toical_ops earlier_clock sample_clock stamped_event
                   (Some fresh_err) = (Some tree, Some r')
        \<and> err_code r' = JMAPICAL_SUCCESS)
   \<and> (\<exists>tree. jmapical_toical skip_toical_ops earlier_clock sample_clock bad_type_event None
                = (Some tree, None))"
proof (intro conjI)
  have "json_string_value (json_object_get (Some (JObject [])) ''uid'') = None" by simp
  with jmapical_toical_error_results
         [where obj = "Some (JObject [])" and E = skip_toical_ops and ?clock0.0 = earlier_clock
            and clock = sample_clock and e = "Some fresh_err"]
  show "jmapical_toical skip_toical_ops earlier_clock sample_clock (Some (JObject []))
          (Some fresh_err) = (None, Some \<lparr>err_code = JMAPICAL_ERROR_UID, err_props = None\<rparr>)"
    by (simp add: fresh_err_def)
  from jmapical_toical_error_results
         [where obj = bad_type_event and E = skip_toical_ops and ?clock0.0 = earlier_clock
            and clock = sample_clock and r = fresh_err]
  show "jmapical_toical skip_toical_ops earlier_clock sample_clock bad_type_event (Some fresh_err)
     = (None, Some \<lparr>err_code = JMAPICAL_ERROR_PROPS,
                     err_props = Some (JArray [JString ''excluded'', JString ''@type''])\<rparr>)"
    by (simp add: bad_type_event_uid bad_type_event_invalid)
  obtain tree r' where r:
    "jmapical_toical skip_toical_ops earlier_clock sample_clock stamped_event (Some fresh_err)
       = (Some tree, r')"
    using stamped_event_converts
    by (cases "jmapical_toical skip_toical_ops earlier_clock sample_clock stamped_event
                 (Some fresh_err)") auto
  with jmapical_toical_error_results
         [where obj = stamped_event and E = skip_toical_ops and ?clock0.0 = earlier_clock
            and clock = sample_clock and r = fresh_err and tree = tree and r' = r']
  show "\<exists>tree r'. jmapical_toical skip_toical_ops earlier_clock sample_clock stamped_event
                   (Some fresh_err) = (Some tree, Some r')
        \<and> err_code r' = JMAPICAL_SUCCESS"
    by auto
  from jmapical_toical_error_results
         [where obj = bad_type_event and E = skip_toical_ops and ?clock0.0 = earlier_clock
            and clock = sample_clock]
  show "\<exists>tree. jmapical_toical skip_toical_ops earlier_clock sample_clock bad_type_event None
                = (Some tree, None)"
    by (simp add: bad_type_event_uid bad_type_event_invalid)
qed

section \<open>Results: alarms\<close>

lemma convert_alarms_eq:
  "convert_alarms P props snoozes alarms st = fold (alert_from_ical P props snoozes) (rev alarms) st"
proof (induction alarms arbitrary: st rule: rev_induct)
  case Nil
  show ?case by (subst convert_alarms.simps) (simp add: ptrarray_pop_def)
next
  case (snoc x xs)
  show ?case by (subst convert_alarms.simps) (simp add: ptrarray_pop_def snoc.IH)
qed

lemma split_alarms_fst:
  "fst (split_alarms cs (alarms, snoozes))
     = alarms @ filter (\<lambda>c. \<not> action_is_none c \<and> snooze_uid c = None) cs"
  by (induction cs arbitrary: alarms snoozes) (auto simp: ptrarray_append_def split: option.split)

lemma split_alarms_snd:
  "snooze_uid a = None \<Longrightarrow>
   snd (split_alarms (xs @ a # ys) (alarms, snoozes))
     = snd (split_alarms (xs @ ys) (alarms', snoozes))"
proof (induction xs arbitrary: alarms alarms' snoozes)
  case Nil
  have "snd (split_alarms ys (al, snoozes)) = snd (split_alarms ys (al', snoozes))" for al al' snoozes
    by (induction ys arbitrary: al al' snoozes) (auto split: option.split)
  with Nil show ?case by auto
next
  case (Cons x xs)
  then show ?case by (auto split: option.split)
qed

lemma alert_from_ical_skips:
  "related_is_other alarm \<Longrightarrow> alert_from_ical P props snoozes alarm st = st"
proof -
  assume "related_is_other alarm"
  then obtain p r where
    "icalcomponent_get_first_property alarm TRIGGER_PROPERTY = Some p"
    "first_related (parameters p) = Some r" "r \<noteq> RELATED_START" "r \<noteq> RELATED_END"
    by (auto simp: related_is_other_def split: option.splits)
  then show ?thesis
    by (cases st) (simp add: alert_from_ical_def Let_def beginprop_key_def endprop_def)
qed

lemma alert_from_ical_invalid:
  "invalid (snd (alert_from_ical P props snoozes alarm st)) = invalid (snd st)"
  by (simp add: alert_from_ical_def Let_def beginprop_key_def endprop_def)

lemma fold_alert_from_ical_invalid:
  "invalid (snd (fold (alert_from_ical P props snoozes) alarms st)) = invalid (snd st)"
  by (induction alarms arbitrary: st) (simp_all add: alert_from_ical_invalid)

text \<open>
  C10. A VALARM that is not a snooze and whose TRIGGER has a RELATED parameter that is
  neither START nor END is skipped: the alerts and the context are those of the VEVENT
  without it; alone, it yields no alerts at all; and no invalid property is recorded.
\<close>

theorem alarm_with_other_related_is_skipped:
  assumes "related_is_other alarm" and "snooze_uid alarm = None"
  shows "alerts_from_ical P ctx (Icalcomponent kind props (before @ alarm # after))
           = alerts_from_ical P ctx (Icalcomponent kind props (before @ after))
       \<and> alerts_from_ical P ctx (Icalcomponent kind props [alarm]) = (JNull, ctx)
       \<and> invalid (snd (alerts_from_ical P ctx (Icalcomponent kind props (before @ alarm # after))))
           = invalid ctx"
proof -
  have eq: "alerts_from_ical P ctx (Icalcomponent kind props (xs @ alarm # ys))
           = alerts_from_ical P ctx (Icalcomponent kind props (xs @ ys))" for xs ys
  proof (cases "comp_isa alarm = VALARM_COMPONENT")
    case False
    then show ?thesis by (simp add: alerts_from_ical_def get_components_def)
  next
    case True
    let ?f = "filter (\<lambda>c. comp_isa c = VALARM_COMPONENT)"
    have s: "snd (split_alarms (?f xs @ alarm # ?f ys) ([], []))
               = snd (split_alarms (?f xs @ ?f ys) ([], []))"
      using assms(2) by (rule split_alarms_snd)
    show ?thesis
      using True assms
      by (simp add: alerts_from_ical_def get_components_def split_def Let_def s split_alarms_fst
            convert_alarms_eq alert_from_ical_skips)
  qed
  have inv: "invalid (snd (alerts_from_ical P ctx c)) = invalid ctx" for c
    by (simp add: alerts_from_ical_def split_def Let_def convert_alarms_eq
          fold_alert_from_ical_invalid)
  have single: "alerts_from_ical P ctx (Icalcomponent kind props [alarm]) = (JNull, ctx)"
  proof -
    have "alerts_from_ical P ctx (Icalcomponent kind props []) = (JNull, ctx)"
      by (simp add: alerts_from_ical_def get_components_def convert_alarms_eq)
    with eq [of "[]" "[]"] show ?thesis by simp
  qed
  from eq inv single show ?thesis by simp
qed

theorem alarm_with_other_related_is_skipped_witness:
  "related_is_other odd_alarm \<and> snooze_uid odd_alarm = None
   \<and> alerts_from_ical sample_alarm_ops (context_new None)
         (Icalcomponent VEVENT_COMPONENT [] [odd_alarm, start_alarm])
       = alerts_from_ical sample_alarm_ops (context_new None)
           (Icalcomponent VEVENT_COMPONENT [] [start_alarm])
   \<and> alerts_from_ical sample_alarm_ops (context_new None)
         (Icalcomponent VEVENT_COMPONENT [] [odd_alarm]) = (JNull, context_new None)
   \<and> invalid (snd (alerts_from_ical sample_alarm_ops (context_new None)
         (Icalcomponent VEVENT_COMPONENT [] [odd_alarm, start_alarm]))) = []"
proof -
  have h1: "related_is_other odd_alarm"
    by (simp add: related_is_other_def odd_alarm_def icalcomponent_get_first_property_def)
  have h2: "snooze_uid odd_alarm = None"
    by (simp add: snooze_uid_def odd_alarm_def icalcomponent_get_first_property_def)
  have i: "invalid (context_new None) = []" by (simp add: context_new_def)
  note skipped = alarm_with_other_related_is_skipped
         [OF h1 h2, of sample_alarm_ops "context_new None" VEVENT_COMPONENT "[]" "[]"
            "[start_alarm]"]
  have "[] @ odd_alarm # [start_alarm] = [odd_alarm, start_alarm]"
    and "[] @ [start_alarm] = [start_alarm]" by simp_all
  with skipped h1 h2 show ?thesis unfolding i by metis
qed

section \<open>Results: recurrence overrides\<close>

text \<open>
  C4, as amended. A patch under a key that parses as a LocalDate, without an \<open>excluded\<close>
  member and with a forbidden member, is ignored as a whole: the tree and the cache of
  exceptions stay as they are, so no EXDATE, RDATE or exception VEVENT comes from it and
  none of its other members is applied, and nothing is recorded as invalid.
\<close>

theorem forbidden_override_is_ignored:
  assumes "localdate_to_icaltime P rid = Some start"
    and "json_object_get (Some override) ''excluded'' = None"
    and "has_forbidden_key override"
  shows "\<exists>ctx'. override_to_ical P master_event (rid, override) (ctx, tree, recurs)
                  = (ctx', tree, recurs)
               \<and> invalid ctx' = invalid ctx \<and> err ctx' = err ctx"
proof -
  from assms(3) have "json_object_size (Some override) \<noteq> 0"
    by (cases override) (auto simp: has_forbidden_key_def)
  with assms show ?thesis
    by (simp add: override_to_ical_def Let_def beginprop_key_def)
qed

text \<open>The sample patch with the forbidden member \<open>uid\<close> is ignored.\<close>

theorem forbidden_override_is_ignored_witness:
  "\<exists>ctx'. override_to_ical sample_override_ops (JObject []) (''2021-03-22T09:00:00'', patch_with_uid)
             (context_new None, weekly_tree, []) = (ctx', weekly_tree, [])
          \<and> invalid ctx' = invalid (context_new None) \<and> err ctx' = err (context_new None)"
proof -
  have h1: "localdate_to_icaltime sample_override_ops ''2021-03-22T09:00:00'' = Some monday_nine"
    by (simp add: sample_override_ops_def)
  have h2: "json_object_get (Some patch_with_uid) ''excluded'' = None"
    by (simp add: patch_with_uid_def)
  have h3: "has_forbidden_key patch_with_uid"
    by (simp add: has_forbidden_key_def patch_with_uid_def forbidden_override_keys_def)
  from forbidden_override_is_ignored [OF h1 h2 h3] show ?thesis .
qed

text \<open>
  C4 as stated fails: the patch that sets the title and has the forbidden member \<open>uid\<close>
  builds no exception VEVENT (and reports nothing), while the same patch without \<open>uid\<close>
  builds one. The remaining members of a patch with a forbidden member are not applied.
\<close>

theorem forbidden_override_counterexample:
  "others (snd (overrides_to_ical sample_override_ops (context_new None) weekly_tree
                  (JObject [(''2021-03-22T09:00:00'', patch_with_uid)]))) = []
   \<and> invalid (fst (overrides_to_ical sample_override_ops (context_new None) weekly_tree
                  (JObject [(''2021-03-22T09:00:00'', patch_with_uid)]))) = []
   \<and> length (others (snd (overrides_to_ical sample_override_ops (context_new None) weekly_tree
                  (JObject [(''2021-03-22T09:00:00'', patch_without_uid)])))) = 1"
  by code_simp

end
